theory Spec2Isabelle
  imports Main
begin

section \<open>The GitHub API client of the editorial workflow\<close>

text \<open>
  The development embeds the class \<open>API\<close> of the GitHub backend: the content-key codec,
  the metadata store on the ref \<open>refs/meta/_netlify_cms\<close>, the rebase of a workflow
  branch, publishing through a pull request, and the reconciliation of open-authoring
  entries.

  A JavaScript string is a list of code units; the model writes it as \<open>string\<close>, one
  \<open>char\<close> for one unit. The source only concatenates strings, takes
  \<open>substring\<close>s at offsets computed from \<open>length\<close>s, compares them and tests
  \<open>startsWith\<close>, and none of this looks inside a unit.
\<close>

subsection \<open>Strings and lodash helpers\<close>

text \<open>\<open>s.substring(n)\<close> for \<open>0 \<le> n\<close>: the units from offset \<open>n\<close>, none when \<open>n\<close> is past the end.\<close>

definition substring :: "string \<Rightarrow> nat \<Rightarrow> string" where
  "substring s n = drop n s"

definition startsWith :: "string \<Rightarrow> string \<Rightarrow> bool" where
  "startsWith s p = (take (length p) s = p)"

text \<open>lodash \<open>trimStart(s, '/')\<close>: every leading slash is removed.\<close>

definition trimStart :: "string \<Rightarrow> string" where
  "trimStart s = dropWhile (\<lambda>c. c = CHR ''/'') s"

text \<open>\<open>s.split('/')\<close>: the pieces between slashes, at least one piece.\<close>

fun split_slash :: "string \<Rightarrow> string list" where
  "split_slash [] = [[]]"
| "split_slash (c # cs) =
     (if c = CHR ''/'' then [] # split_slash cs
      else (case split_slash cs of
              [] \<Rightarrow> [[c]]
            | p # ps \<Rightarrow> (c # p) # ps))"

text \<open>
  An element of an array interpolated into a template string: the text \<open>undefined\<close> when
  the array is too short.
\<close>

definition interpolate_nth :: "string list \<Rightarrow> nat \<Rightarrow> string" where
  "interpolate_nth ps i = (if i < length ps then ps ! i else ''undefined'')"

text \<open>lodash \<open>last\<close>: \<open>undefined\<close> on the empty array.\<close>

definition last_opt :: "'a list \<Rightarrow> 'a option" where
  "last_opt xs = (if xs = [] then None else Some (last xs))"

text \<open>\<open>x || d\<close> on an optional string: the empty string is falsy too.\<close>

definition str_or :: "string option \<Rightarrow> string \<Rightarrow> string" where
  "str_or x d = (case x of None \<Rightarrow> d | Some s \<Rightarrow> if s = [] then d else s)"

text \<open>Truthiness of an optional boolean and of an optional string.\<close>

definition truthy :: "bool option \<Rightarrow> bool" where
  "truthy b = (b = Some True)"

definition truthy_str :: "string option \<Rightarrow> bool" where
  "truthy_str x = (case x of None \<Rightarrow> False | Some s \<Rightarrow> s \<noteq> [])"

subsection \<open>Configuration and the instance\<close>

record Config =
  cfg_apiRoot :: "string option"
  cfg_token :: "string option"
  cfg_branch :: "string option"
  cfg_useOpenAuthoring :: "bool option"
  cfg_repo :: "string option"
  cfg_originRepo :: "string option"
  cfg_squashMerges :: bool
  cfg_initialWorkflowStatus :: string

record API =
  apiRoot :: string
  token :: string
  branch :: string
  useOpenAuthoring :: "bool option"
  repo :: string
  originRepo :: string
  repoURL :: string
  originRepoURL :: string
  mergeMethod :: string
  initialWorkflowStatus :: string

definition new_API :: "Config \<Rightarrow> API" where
  "new_API config =
     (let r = str_or (cfg_repo config) '''';
          orig = str_or (cfg_originRepo config) r
      in \<lparr> apiRoot = str_or (cfg_apiRoot config) ''https://api.github.com'',
           token = str_or (cfg_token config) '''',
           branch = str_or (cfg_branch config) ''master'',
           useOpenAuthoring = cfg_useOpenAuthoring config,
           repo = r,
           originRepo = orig,
           repoURL = ''/repos/'' @ r,
           originRepoURL = ''/repos/'' @ orig,
           mergeMethod = (if cfg_squashMerges config then ''squash'' else ''merge''),
           initialWorkflowStatus = cfg_initialWorkflowStatus config \<rparr>)"

subsection \<open>Content-key codec\<close>

text \<open>
  Modelled from the spec: the constant \<open>CMS_BRANCH_PREFIX\<close> is imported from
  \<open>netlify-cms-lib-util\<close>, which is not among the sources. The spec calls it the fixed
  prefix of workflow branches; \<open>migrateToVersion1\<close> hard-codes the same naming as
  \<open>cms/\<close> and \<open>listUnpublishedBranches\<close> lists the refs under \<open>heads/cms\<close>.
  Only the examples unfold the value.
\<close>

definition CMS_BRANCH_PREFIX :: string where
  "CMS_BRANCH_PREFIX = ''cms''"

text \<open>
  Modelled from the spec: the function \<open>generateContentKey\<close> of
  \<open>netlify-cms-lib-util\<close>, not among the sources: "in the standard variant,
  \<open>collection/slug\<close>".
\<close>

definition lib_generateContentKey :: "string \<Rightarrow> string \<Rightarrow> string" where
  "lib_generateContentKey collectionName slug = collectionName @ ''/'' @ slug"

text \<open>
  The method \<open>generateContentKey\<close>. In the branch for \<open>!this.useOpenAuthoring\<close> the source
  calls the library function as a statement and drops its value; control then reaches
  the \<open>return\<close> that both variants share.
\<close>

definition generateContentKey :: "API \<Rightarrow> string \<Rightarrow> string \<Rightarrow> string" where
  "generateContentKey a collectionName slug =
     (let dropped = (if \<not> truthy (useOpenAuthoring a)
                     then Some (lib_generateContentKey collectionName slug)
                     else None)
      in repo a @ ''/'' @ collectionName @ ''/'' @ slug)"

definition slugFromContentKey :: "API \<Rightarrow> string \<Rightarrow> string \<Rightarrow> string" where
  "slugFromContentKey a contentKey collectionName =
     (if \<not> truthy (useOpenAuthoring a)
      then substring contentKey (length collectionName + 1)
      else substring contentKey (length (repo a) + length collectionName + 2))"

definition generateBranchName :: "string \<Rightarrow> string" where
  "generateBranchName contentKey = CMS_BRANCH_PREFIX @ ''/'' @ contentKey"

definition branchNameFromRef :: "string \<Rightarrow> string" where
  "branchNameFromRef r = substring r (length ''refs/heads/'')"

definition contentKeyFromRef :: "string \<Rightarrow> string" where
  "contentKeyFromRef r = substring r (length (''refs/heads/'' @ CMS_BRANCH_PREFIX @ ''/''))"

definition assertCmsBranch :: "string \<Rightarrow> bool" where
  "assertCmsBranch branchName = startsWith branchName (CMS_BRANCH_PREFIX @ ''/'')"

subsection \<open>Git objects, metadata and pull requests\<close>

record GitHubAuthor =
  author_name :: string
  author_email :: string
  author_date :: string

text \<open>
  A commit as the compare endpoint lists it (\<open>sha\<close>, \<open>parents[i].sha\<close>,
  \<open>commit.message\<close>, \<open>commit.author\<close>, \<open>commit.committer\<close>). The source casts
  the answer of the commit-creation endpoint to the same type.
\<close>

record GitCommit =
  commit_sha :: string
  commit_parents :: "string list"
  commit_message :: string
  commit_author :: GitHubAuthor
  commit_committer :: GitHubAuthor

record CompareFile =
  file_status :: string
  file_filename :: string
  file_previous_filename :: "string option"
  file_sha :: string

text \<open>An argument of \<open>updateTree\<close>: \<open>{ path: string; sha: string | null }\<close>.\<close>

record TreeFile =
  tf_path :: string
  tf_sha :: "string option"

text \<open>An element of the \<open>tree\<close> array sent to the tree endpoint.\<close>

record TreeEntry =
  te_path :: string
  te_mode :: string
  te_type :: string
  te_sha :: "string option"

text \<open>What \<open>updateTree\<close> returns: the new tree with \<open>parentSha\<close> added.\<close>

record ChangeTree =
  ct_sha :: string
  ct_parentSha :: "string option"

record MediaFile =
  mf_sha :: string
  mf_path :: string

record MetaDataObjects =
  obj_entry :: MediaFile
  obj_files :: "MediaFile list"

text \<open>\<open>head: string | { sha: string }\<close>.\<close>

datatype PRHead = HeadString string | HeadObject string

record PR =
  pr_number :: nat
  pr_head :: PRHead

record Metadata =
  md_type :: string
  md_objects :: MetaDataObjects
  md_branch :: string
  md_status :: string
  md_pr :: "PR option"
  md_collection :: string
  md_commitMessage :: string
  md_version :: "string option"
  md_user :: string
  md_title :: "string option"
  md_description :: "string option"
  md_timeStamp :: string

datatype Branch = Branch (branch_ref: string)

record PullInfo =
  pull_number :: nat
  pull_head_sha :: string
  pull_state :: string
  pull_merged_at :: "string option"

record GitHubUser =
  user_name :: "string option"
  user_login :: string

subsection \<open>The remote\<close>

text \<open>
  The HTTP transport is outside the class. A call of \<open>request\<close> is recorded by what
  identifies it: the endpoint, the repository root of the URL (\<open>repoURL\<close> or
  \<open>originRepoURL\<close>) and the fields of the body. The base64 encoding of a blob, the
  cache-busting query parameter and the constant texts \<open>DEFAULT_PR_BODY\<close> and
  \<open>MERGE_COMMIT_MESSAGE\<close> of \<open>netlify-cms-lib-util\<close> are the same in every call of
  an endpoint and are not repeated.
\<close>

datatype blob_content = RawText string | MetadataJson Metadata

datatype request =
    GetRef string string string
  | ListRefs string string
  | CreateBlob string blob_content
  | CreateTree string "string option" "TreeEntry list"
  | CreateCommit string string string "string list" "GitHubAuthor option" "GitHubAuthor option"
  | CreateRef string string string
  | PatchRef string string string string bool
  | DeleteRef string string string
  | GetBranch string string
  | GetContents string string
  | Compare string string string
  | GetUser
  | GetPull string nat
  | ListPulls string string string
  | CreatePull string string string string
  | PatchPull string nat string
  | MergePull string nat PRHead string

text \<open>
  The answers, typed as the TypeScript declarations of the call sites type them.
  \<open>ContentsResponse None\<close> is a text that \<open>JSON.parse\<close> refuses.
\<close>

datatype response =
    RefResponse string string
  | RefsResponse "Branch list"
  | ShaResponse string
  | CommitResponse GitCommit
  | BranchResponse string
  | ContentsResponse "Metadata option"
  | CompareResponse GitCommit "GitCommit list" "CompareFile list"
  | UserResponse GitHubUser
  | PullResponse PullInfo
  | PullsResponse "string list"
  | OtherResponse

text \<open>A failed call: the \<open>message\<close> of what was thrown and the HTTP status, either may be absent.\<close>

datatype failure = Failure "string option" "nat option"

text \<open>
  The remote is any function of the calls made so far and the call made now. Nothing is
  assumed about it: another process, a maintainer or GitHub itself may change what it
  answers between two calls. \<open>elapsed\<close> is the time a call takes in milliseconds.
\<close>

record remote =
  respond :: "request list \<Rightarrow> request \<Rightarrow> failure + response"
  elapsed :: "request list \<Rightarrow> request \<Rightarrow> int"

subsection \<open>Promises\<close>

datatype error =
    APIError "string option" "nat option"
  | Error string
  | Reason string
  | TypeError
  | SyntaxError
  | ShapeError
  | PagesError failure

text \<open>
  \<open>err.message\<close>. The text of a \<open>TypeError\<close> or \<open>SyntaxError\<close> is the engine's and
  is none of the texts the source compares a message with; the model keeps none.
\<close>

fun message :: "error \<Rightarrow> string option" where
  "message (APIError m st) = m"
| "message (Error m) = Some m"
| "message (Reason r) = None"
| "message TypeError = None"
| "message SyntaxError = None"
| "message ShapeError = None"
| "message (PagesError (Failure m st)) = m"

text \<open>
  A promise is resolved with a value, rejected with an error, or never settled:
  \<open>Pending\<close> is the promise of a write that waits for the semaphore and is never
  handed the slot.
\<close>

datatype 'a outcome = Resolved 'a | Rejected error | Pending

datatype task = StoreTask string Metadata | DeleteTask string

text \<open>The semaphore of capacity one: the slot and the callbacks waiting for it, oldest first.\<close>

record Semaphore =
  held :: bool
  waiting :: "task list"

record CacheEntry =
  expires :: int
  data :: Metadata

text \<open>
  The mutable state an operation runs in: the calls made so far, \<open>Date.now()\<close>, the
  \<open>localForage\<close> store, and the fields \<open>_userPromise\<close> and \<open>_metadataSemaphore\<close>.
\<close>

record state =
  trace :: "request list"
  clock :: int
  localForage :: "string \<Rightarrow> CacheEntry option"
  userPromise :: "GitHubUser outcome option"
  metadataSemaphore :: "Semaphore option"

type_synonym 'a prog = "state \<Rightarrow> 'a outcome \<times> state"

definition resolve :: "'a \<Rightarrow> 'a prog" where
  "resolve x s = (Resolved x, s)"

definition reject :: "error \<Rightarrow> 'a prog" where
  "reject e s = (Rejected e, s)"

text \<open>\<open>await m\<close> and then \<open>f\<close>, also \<open>m.then(f)\<close>.\<close>

definition await :: "'a prog \<Rightarrow> ('a \<Rightarrow> 'b prog) \<Rightarrow> 'b prog" where
  "await m f s =
     (case m s of
        (Resolved x, s') \<Rightarrow> f x s'
      | (Rejected e, s') \<Rightarrow> (Rejected e, s')
      | (Pending, s') \<Rightarrow> (Pending, s'))"

text \<open>\<open>try { m } catch (err) { h err }\<close>, also \<open>m.catch(h)\<close>.\<close>

definition catch :: "'a prog \<Rightarrow> (error \<Rightarrow> 'a prog) \<Rightarrow> 'a prog" where
  "catch m h s =
     (case m s of
        (Rejected e, s') \<Rightarrow> h e s'
      | (Resolved x, s') \<Rightarrow> (Resolved x, s')
      | (Pending, s') \<Rightarrow> (Pending, s'))"

text \<open>
  A call whose promise the caller neither awaits nor returns. Operations run one after
  the other here, so the call runs to its end at once; its outcome is lost.
\<close>

definition detach :: "'a prog \<Rightarrow> unit prog" where
  "detach m s = (Resolved (), snd (m s))"

subsection \<open>Requests\<close>

text \<open>
  \<open>request\<close>: the call is made, time passes, and every failure leaves
  \<open>handleRequestError\<close> as an \<open>APIError\<close> carrying the message and the status.
\<close>

definition request :: "remote \<Rightarrow> request \<Rightarrow> response prog" where
  "request R rq s =
     (let s' = s\<lparr>trace := trace s @ [rq], clock := clock s + elapsed R (trace s) rq\<rparr>
      in (case respond R (trace s) rq of
            Inl (Failure m st) \<Rightarrow> (Rejected (APIError m st), s')
          | Inr v \<Rightarrow> (Resolved v, s')))"

text \<open>\<open>requestAllPages\<close> goes through \<open>getAllResponses\<close>, not through \<open>handleRequestError\<close>.\<close>

definition requestAllPages :: "remote \<Rightarrow> request \<Rightarrow> response prog" where
  "requestAllPages R rq s =
     (let s' = s\<lparr>trace := trace s @ [rq], clock := clock s + elapsed R (trace s) rq\<rparr>
      in (case respond R (trace s) rq of
            Inl f \<Rightarrow> (Rejected (PagesError f), s')
          | Inr v \<Rightarrow> (Resolved v, s')))"

text \<open>
  Reading a field of an answer. An answer of another shape than the declared one is not
  described by the source, where JavaScript would read \<open>undefined\<close> and go on; the model
  rejects with \<open>ShapeError\<close> where the field is read.
\<close>

definition response_object :: "response \<Rightarrow> string prog" where
  "response_object r = (case r of RefResponse rf sha \<Rightarrow> resolve sha | _ \<Rightarrow> reject ShapeError)"

definition response_branch :: "response \<Rightarrow> Branch prog" where
  "response_branch r = (case r of RefResponse rf sha \<Rightarrow> resolve (Branch rf) | _ \<Rightarrow> reject ShapeError)"

definition response_sha :: "response \<Rightarrow> string prog" where
  "response_sha r = (case r of ShaResponse sha \<Rightarrow> resolve sha | _ \<Rightarrow> reject ShapeError)"

definition response_tree :: "response \<Rightarrow> ChangeTree prog" where
  "response_tree r =
     (case r of ShaResponse sha \<Rightarrow> resolve \<lparr>ct_sha = sha, ct_parentSha = None\<rparr>
              | _ \<Rightarrow> reject ShapeError)"

definition response_commit :: "response \<Rightarrow> GitCommit prog" where
  "response_commit r = (case r of CommitResponse c \<Rightarrow> resolve c | _ \<Rightarrow> reject ShapeError)"

definition response_default_branch :: "response \<Rightarrow> string prog" where
  "response_default_branch r = (case r of BranchResponse sha \<Rightarrow> resolve sha | _ \<Rightarrow> reject ShapeError)"

definition response_pull :: "response \<Rightarrow> PullInfo prog" where
  "response_pull r = (case r of PullResponse p \<Rightarrow> resolve p | _ \<Rightarrow> reject ShapeError)"

definition response_user :: "response \<Rightarrow> GitHubUser prog" where
  "response_user r = (case r of UserResponse u \<Rightarrow> resolve u | _ \<Rightarrow> reject ShapeError)"

definition response_files :: "response \<Rightarrow> CompareFile list prog" where
  "response_files r = (case r of CompareResponse b cs fs \<Rightarrow> resolve fs | _ \<Rightarrow> reject ShapeError)"

definition response_compare :: "response \<Rightarrow> (GitCommit \<times> GitCommit list) prog" where
  "response_compare r = (case r of CompareResponse b cs fs \<Rightarrow> resolve (b, cs) | _ \<Rightarrow> reject ShapeError)"

text \<open>\<open>JSON.parse\<close> of the text of a metadata document.\<close>

definition JSON_parse :: "response \<Rightarrow> Metadata prog" where
  "JSON_parse r =
     (case r of ContentsResponse (Some m) \<Rightarrow> resolve m
              | ContentsResponse None \<Rightarrow> reject SyntaxError
              | _ \<Rightarrow> reject ShapeError)"

subsection \<open>Refs, blobs, trees and commits\<close>

definition createRef :: "remote \<Rightarrow> API \<Rightarrow> string \<Rightarrow> string \<Rightarrow> string \<Rightarrow> response prog" where
  "createRef R a type name sha =
     request R (CreateRef (repoURL a) (''refs/'' @ type @ ''/'' @ name) sha)"

definition patchRef :: "remote \<Rightarrow> API \<Rightarrow> string \<Rightarrow> string \<Rightarrow> string \<Rightarrow> bool option \<Rightarrow> response prog" where
  "patchRef R a type name sha opts_force =
     (let force = truthy opts_force
      in request R (PatchRef (repoURL a) type name sha force))"

definition deleteRef :: "remote \<Rightarrow> API \<Rightarrow> string \<Rightarrow> string \<Rightarrow> response prog" where
  "deleteRef R a type name = request R (DeleteRef (repoURL a) type name)"

definition getDefaultBranch :: "remote \<Rightarrow> API \<Rightarrow> string prog" where
  "getDefaultBranch R a =
     await (request R (GetBranch (originRepoURL a) (branch a))) response_default_branch"

definition createBranch :: "remote \<Rightarrow> API \<Rightarrow> string \<Rightarrow> string \<Rightarrow> response prog" where
  "createBranch R a branchName sha = createRef R a ''heads'' branchName sha"

text \<open>
  \<open>patchBranch\<close> throws before \<open>patchRef\<close> is reached. Every caller is an \<open>async\<close>
  function or a \<open>then\<close> callback, where the exception is a rejection.
\<close>

definition patchBranch :: "remote \<Rightarrow> API \<Rightarrow> string \<Rightarrow> string \<Rightarrow> bool option \<Rightarrow> response prog" where
  "patchBranch R a branchName sha opts_force =
     (let force = truthy opts_force
      in if force \<and> \<not> assertCmsBranch branchName
         then reject (Error (''Only CMS branches can be force updated, cannot force update ''
                               @ branchName))
         else patchRef R a ''heads'' branchName sha (Some force))"

definition deleteBranch :: "remote \<Rightarrow> API \<Rightarrow> string \<Rightarrow> unit prog" where
  "deleteBranch R a branchName =
     catch (await (deleteRef R a ''heads'' branchName) (\<lambda>_. resolve ()))
           (\<lambda>err. if message err = Some ''Reference does not exist''
                   then resolve ()
                   else reject err)"

text \<open>\<open>uploadBlob\<close> stores the sha of the answer in the item; the model returns it.\<close>

definition uploadBlob :: "remote \<Rightarrow> API \<Rightarrow> blob_content \<Rightarrow> string prog" where
  "uploadBlob R a content =
     await (request R (CreateBlob (repoURL a) content)) response_sha"

definition createTree :: "remote \<Rightarrow> API \<Rightarrow> string \<Rightarrow> TreeEntry list \<Rightarrow> response prog" where
  "createTree R a baseSha tree = request R (CreateTree (repoURL a) (Some baseSha) tree)"

definition tree_entry :: "TreeFile \<Rightarrow> TreeEntry" where
  "tree_entry file =
     \<lparr> te_path = trimStart (tf_path file), te_mode = ''100644'', te_type = ''blob'',
       te_sha = tf_sha file \<rparr>"

definition updateTree :: "remote \<Rightarrow> API \<Rightarrow> string \<Rightarrow> TreeFile list \<Rightarrow> ChangeTree prog" where
  "updateTree R a baseSha files =
     (let tree = map tree_entry files
      in await (createTree R a baseSha tree) (\<lambda>r.
         await (response_tree r) (\<lambda>newTree.
         resolve (newTree\<lparr>ct_parentSha := Some baseSha\<rparr>))))"

definition createCommit ::
  "remote \<Rightarrow> API \<Rightarrow> string \<Rightarrow> string \<Rightarrow> string list \<Rightarrow> GitHubAuthor option \<Rightarrow> GitHubAuthor option
     \<Rightarrow> GitCommit prog" where
  "createCommit R a msg treeSha parents author committer =
     await (request R (CreateCommit (repoURL a) msg treeSha parents author committer))
           response_commit"

definition commit :: "remote \<Rightarrow> API \<Rightarrow> string \<Rightarrow> ChangeTree \<Rightarrow> GitCommit prog" where
  "commit R a msg changeTree =
     (let parents = (if truthy_str (ct_parentSha changeTree)
                     then [the (ct_parentSha changeTree)] else [])
      in createCommit R a msg (ct_sha changeTree) parents None None)"

subsection \<open>Metadata store\<close>

definition newline :: char where
  "newline = CHR 0x0A"

text \<open>
  The quotation marks U+201C and U+201D of the commit messages, written as their UTF-8
  bytes since a \<open>char\<close> holds eight bits. The length of a message is taken nowhere.
\<close>

definition ldquo :: string where
  "ldquo = [CHR 0xE2, CHR 0x80, CHR 0x9C]"

definition rdquo :: string where
  "rdquo = [CHR 0xE2, CHR 0x80, CHR 0x9D]"

definition readme :: string where
  "readme = ''# Netlify CMS'' @ [newline, newline] @
     ''This tree is used by the Netlify CMS to store metadata information for specific files and branches.''"

definition checkMetadataRef :: "remote \<Rightarrow> API \<Rightarrow> string prog" where
  "checkMetadataRef R a =
     catch (await (request R (GetRef (repoURL a) ''meta'' ''_netlify_cms'')) response_object)
       (\<lambda>_. await (uploadBlob R a (RawText readme)) (\<lambda>item_sha.
             await (request R (CreateTree (repoURL a) None
                      [\<lparr> te_path = ''README.md'', te_mode = ''100644'', te_type = ''blob'',
                         te_sha = Some item_sha \<rparr>])) (\<lambda>r.
             await (response_tree r) (\<lambda>tree.
             await (commit R a ''First Commit'' tree) (\<lambda>response.
             await (createRef R a ''meta'' ''_netlify_cms'' (commit_sha response))
                   response_object)))))"

definition setItem :: "string \<Rightarrow> CacheEntry \<Rightarrow> unit prog" where
  "setItem k v s = (Resolved (), s\<lparr>localForage := (localForage s)(k \<mapsto> v)\<rparr>)"

text \<open>
  The callback that \<open>storeMetadata\<close> hands to \<open>take\<close>, with \<open>leave\<close> of the semaphore as
  an argument. \<open>leave\<close> is called at the end of the \<open>try\<close> block only. The promise of
  \<open>localForage.setItem\<close> is not awaited; the entry is written at once here.
\<close>

definition storeMetadata_callback ::
  "remote \<Rightarrow> API \<Rightarrow> string \<Rightarrow> Metadata \<Rightarrow> unit prog \<Rightarrow> unit prog" where
  "storeMetadata_callback R a key d leave =
     catch
       (await (checkMetadataRef R a) (\<lambda>branchData.
        await (uploadBlob R a (MetadataJson d)) (\<lambda>file_sha.
        await (updateTree R a branchData
                 [\<lparr>tf_path = key @ ''.json'', tf_sha = Some file_sha\<rparr>]) (\<lambda>changeTree.
        await (commit R a (''Updating '' @ ldquo @ key @ rdquo @ '' metadata'') changeTree) (\<lambda>c.
        await (patchRef R a ''meta'' ''_netlify_cms'' (commit_sha c) None) (\<lambda>_.
        await (\<lambda>s. setItem (''gh.meta.'' @ key) \<lparr>expires = clock s + 300000, data = d\<rparr> s) (\<lambda>_.
        await leave (\<lambda>_.
        resolve ()))))))))
       (\<lambda>err. reject err)"

text \<open>The callback of \<open>deleteMetadata\<close>: \<open>leave\<close> is called in the \<open>try\<close> and in the \<open>catch\<close> block.\<close>

definition deleteMetadata_callback ::
  "remote \<Rightarrow> API \<Rightarrow> string \<Rightarrow> unit prog \<Rightarrow> unit prog" where
  "deleteMetadata_callback R a key leave =
     catch
       (await (checkMetadataRef R a) (\<lambda>branchData.
        await (updateTree R a branchData
                 [\<lparr>tf_path = key @ ''.json'', tf_sha = None\<rparr>]) (\<lambda>changeTree.
        await (commit R a (''Deleting '' @ ldquo @ key @ rdquo @ '' metadata'') changeTree) (\<lambda>c.
        await (patchRef R a ''meta'' ''_netlify_cms'' (commit_sha c) None) (\<lambda>_.
        await leave (\<lambda>_.
        resolve ()))))))
       (\<lambda>err. await leave (\<lambda>_. resolve ()))"

fun callback :: "remote \<Rightarrow> API \<Rightarrow> task \<Rightarrow> unit prog \<Rightarrow> unit prog" where
  "callback R a (StoreTask key d) leave = storeMetadata_callback R a key d leave"
| "callback R a (DeleteTask key) leave = deleteMetadata_callback R a key leave"

text \<open>
  Modelled from the spec: the package \<open>semaphore\<close> is not among the sources. "All
  Metadata Store writes for the same process are totally ordered through a single-slot
  FIFO queue (capacity 1): a second write request must wait for the first to fully
  complete before it begins." \<open>take\<close> runs the callback at once when the slot is free
  and appends it to the queue otherwise; \<open>leave\<close> gives the slot to the oldest waiting
  callback and runs it, or frees the slot when none waits. The promise of a woken
  callback belongs to an earlier caller, so its outcome is not returned here.
\<close>

definition the_semaphore :: "state \<Rightarrow> Semaphore" where
  "the_semaphore s =
     (case metadataSemaphore s of None \<Rightarrow> \<lparr>held = False, waiting = []\<rparr> | Some m \<Rightarrow> m)"

primrec hand_over :: "remote \<Rightarrow> API \<Rightarrow> task list \<Rightarrow> unit prog" where
  "hand_over R a [] =
     (\<lambda>s. (Resolved (), s\<lparr>metadataSemaphore := Some \<lparr>held = False, waiting = []\<rparr>\<rparr>))"
| "hand_over R a (t # q) =
     (\<lambda>s. (Resolved (),
            snd (callback R a t (hand_over R a q)
                   (s\<lparr>metadataSemaphore := Some \<lparr>held = True, waiting = q\<rparr>\<rparr>))))"

definition leave :: "remote \<Rightarrow> API \<Rightarrow> unit prog" where
  "leave R a s = hand_over R a (waiting (the_semaphore s)) s"

definition take :: "remote \<Rightarrow> API \<Rightarrow> task \<Rightarrow> unit prog" where
  "take R a t s =
     (let m = the_semaphore s
      in if held m
         then (Pending, s\<lparr>metadataSemaphore := Some (m\<lparr>waiting := waiting m @ [t]\<rparr>)\<rparr>)
         else callback R a t (leave R a) (s\<lparr>metadataSemaphore := Some (m\<lparr>held := True\<rparr>)\<rparr>))"

text \<open>
  \<open>storeMetadata\<close> and \<open>deleteMetadata\<close>: the semaphore is created on first use, and the
  promise returned is settled by the callback.
\<close>

definition storeMetadata :: "remote \<Rightarrow> API \<Rightarrow> string \<Rightarrow> Metadata \<Rightarrow> unit prog" where
  "storeMetadata R a key d s =
     take R a (StoreTask key d) (s\<lparr>metadataSemaphore := Some (the_semaphore s)\<rparr>)"

definition deleteMetadata :: "remote \<Rightarrow> API \<Rightarrow> string \<Rightarrow> unit prog" where
  "deleteMetadata R a key s =
     take R a (DeleteTask key) (s\<lparr>metadataSemaphore := Some (the_semaphore s)\<rparr>)"

text \<open>The part of \<open>retrieveMetadata\<close> after the look in the cache.\<close>

definition retrieveMetadata_remote :: "remote \<Rightarrow> API \<Rightarrow> string \<Rightarrow> Metadata prog" where
  "retrieveMetadata_remote R a key =
     (let errorHandler = (\<lambda>err. reject err)
      in if \<not> truthy (useOpenAuthoring a)
         then catch (await (request R (GetContents (repoURL a) (key @ ''.json''))) JSON_parse)
                    errorHandler
         else (let parts = split_slash key;
                   user = interpolate_nth parts 0;
                   rp = interpolate_nth parts 1
               in catch (await (request R (GetContents (''/repos/'' @ user @ ''/'' @ rp)
                                             (key @ ''.json''))) JSON_parse)
                        errorHandler))"

definition retrieveMetadata :: "remote \<Rightarrow> API \<Rightarrow> string \<Rightarrow> Metadata prog" where
  "retrieveMetadata R a key s =
     (case localForage s (''gh.meta.'' @ key) of
        Some cached \<Rightarrow>
          if expires cached > clock s then (Resolved (data cached), s)
          else retrieveMetadata_remote R a key s
      | None \<Rightarrow> retrieveMetadata_remote R a key s)"

subsection \<open>Pull requests\<close>

text \<open>\<open>user\<close> keeps the promise of its first call, settled or not, in \<open>_userPromise\<close>.\<close>

definition user :: "remote \<Rightarrow> GitHubUser prog" where
  "user R s =
     (case userPromise s of
        Some p \<Rightarrow> (p, s)
      | None \<Rightarrow>
          (case await (request R GetUser) response_user s of
             (p, s') \<Rightarrow> (p, s'\<lparr>userPromise := Some p\<rparr>)))"

definition getHeadReference :: "remote \<Rightarrow> API \<Rightarrow> string \<Rightarrow> string prog" where
  "getHeadReference R a hd_name =
     (if truthy (useOpenAuthoring a)
      then await (user R) (\<lambda>u. resolve (user_login u @ '':'' @ hd_name))
      else resolve hd_name)"

text \<open>The URL of \<open>getPullRequest\<close> ends in the pull request number followed by \<open> }\<close>.\<close>

definition getPullRequest :: "remote \<Rightarrow> API \<Rightarrow> nat \<Rightarrow> PullInfo prog" where
  "getPullRequest R a prNumber =
     await (request R (GetPull (originRepoURL a) prNumber)) response_pull"

definition createPR :: "remote \<Rightarrow> API \<Rightarrow> string \<Rightarrow> string \<Rightarrow> PullInfo prog" where
  "createPR R a title hd_name =
     await (getHeadReference R a hd_name) (\<lambda>headReference.
     await (request R (CreatePull (originRepoURL a) title headReference (branch a)))
           response_pull)"

definition openPR :: "remote \<Rightarrow> API \<Rightarrow> PR \<Rightarrow> response prog" where
  "openPR R a pullRequest =
     request R (PatchPull (originRepoURL a) (pr_number pullRequest) ''open'')"

definition closePR :: "remote \<Rightarrow> API \<Rightarrow> PR \<Rightarrow> response prog" where
  "closePR R a pullRequest =
     request R (PatchPull (originRepoURL a) (pr_number pullRequest) ''closed'')"

definition file_of_media :: "MediaFile \<Rightarrow> TreeFile" where
  "file_of_media f = \<lparr>tf_path = mf_path f, tf_sha = Some (mf_sha f)\<rparr>"

definition forceMerge_message :: "MediaFile list \<Rightarrow> string" where
  "forceMerge_message files =
     foldl (\<lambda>commitMessage file.
              commitMessage @ [newline] @ ''* '' @ [CHR 0x22] @ mf_path file @ [CHR 0x22])
           (''Automatically generated. Merged on Netlify CMS'' @ [newline, newline]
              @ ''Force merge of:'')
           files"

text \<open>\<open>forceMergePR\<close> calls \<open>patchBranch\<close> with no options.\<close>

definition forceMergePR :: "remote \<Rightarrow> API \<Rightarrow> MetaDataObjects \<Rightarrow> response prog" where
  "forceMergePR R a objects =
     (let files = obj_files objects @ [obj_entry objects];
          commitMessage = forceMerge_message files
      in await (getDefaultBranch R a) (\<lambda>branchData.
         await (updateTree R a branchData (map file_of_media files)) (\<lambda>changeTree.
         await (commit R a commitMessage changeTree) (\<lambda>response.
         patchBranch R a (branch a) (commit_sha response) None))))"

definition is_APIError :: "error \<Rightarrow> bool" where
  "is_APIError e = (case e of APIError m st \<Rightarrow> True | _ \<Rightarrow> False)"

definition error_status :: "error \<Rightarrow> nat option" where
  "error_status e = (case e of APIError m st \<Rightarrow> st | PagesError (Failure m st) \<Rightarrow> st | _ \<Rightarrow> None)"

text \<open>
  \<open>mergePR\<close>. The caller passes \<open>metadata.pr as PR\<close>; destructuring an absent pull request
  throws a \<open>TypeError\<close>.
\<close>

definition mergePR :: "remote \<Rightarrow> API \<Rightarrow> PR option \<Rightarrow> MetaDataObjects \<Rightarrow> response prog" where
  "mergePR R a pullrequest objects =
     (case pullrequest of
        None \<Rightarrow> reject TypeError
      | Some p \<Rightarrow>
          catch (request R (MergePull (originRepoURL a) (pr_number p) (pr_head p) (mergeMethod a)))
                (\<lambda>err. if is_APIError err \<and> error_status err = Some 405
                        then forceMergePR R a objects
                        else reject err))"

definition deleteUnpublishedEntry :: "remote \<Rightarrow> API \<Rightarrow> string \<Rightarrow> string \<Rightarrow> unit prog" where
  "deleteUnpublishedEntry R a collectionName slug =
     (let contentKey = generateContentKey a collectionName slug;
          branchName = generateBranchName contentKey
      in await (retrieveMetadata R a contentKey) (\<lambda>metadata.
         await (case md_pr metadata of
                  Some p \<Rightarrow> await (closePR R a p) (\<lambda>_. resolve ())
                | None \<Rightarrow> resolve ()) (\<lambda>_.
         await (deleteBranch R a branchName) (\<lambda>_.
         deleteMetadata R a contentKey))))"

definition publishUnpublishedEntry :: "remote \<Rightarrow> API \<Rightarrow> string \<Rightarrow> string \<Rightarrow> Metadata prog" where
  "publishUnpublishedEntry R a collectionName slug =
     (let contentKey = generateContentKey a collectionName slug;
          branchName = generateBranchName contentKey
      in await (retrieveMetadata R a contentKey) (\<lambda>metadata.
         await (mergePR R a (md_pr metadata) (md_objects metadata)) (\<lambda>_.
         await (deleteBranch R a branchName) (\<lambda>_.
         await (deleteMetadata R a contentKey) (\<lambda>_.
         resolve metadata)))))"

subsection \<open>Rebase\<close>

definition getCommitsDiff :: "remote \<Rightarrow> API \<Rightarrow> string \<Rightarrow> string \<Rightarrow> CompareFile list prog" where
  "getCommitsDiff R a baseSha headSha =
     await (request R (Compare (repoURL a) baseSha headSha)) response_files"

text \<open>
  The reducer of \<open>rebaseSingleCommit\<close>. \<open>file.previous_filename as string\<close> is
  \<open>undefined\<close> when GitHub sent none; \<open>updateTree\<close> then trims it to the empty path,
  which is what the model writes at once.
\<close>

definition push_changes :: "TreeFile list \<Rightarrow> CompareFile \<Rightarrow> TreeFile list" where
  "push_changes arr file =
     (if file_status file = ''removed''
      then arr @ [\<lparr>tf_path = file_filename file, tf_sha = None\<rparr>]
      else if file_status file = ''renamed''
      then arr @ [\<lparr>tf_path = (case file_previous_filename file of None \<Rightarrow> [] | Some p \<Rightarrow> p),
                    tf_sha = None\<rparr>]
               @ [\<lparr>tf_path = file_filename file, tf_sha = Some (file_sha file)\<rparr>]
      else arr @ [\<lparr>tf_path = file_filename file, tf_sha = Some (file_sha file)\<rparr>])"

definition treeFiles :: "CompareFile list \<Rightarrow> TreeFile list" where
  "treeFiles files = foldl push_changes [] files"

definition rebaseSingleCommit :: "remote \<Rightarrow> API \<Rightarrow> GitCommit \<Rightarrow> GitCommit \<Rightarrow> GitCommit prog" where
  "rebaseSingleCommit R a baseCommit cmt =
     (case commit_parents cmt of
        [] \<Rightarrow> reject TypeError
      | parent # _ \<Rightarrow>
          await (getCommitsDiff R a parent (commit_sha cmt)) (\<lambda>files.
          await (updateTree R a (commit_sha baseCommit) (treeFiles files)) (\<lambda>tree.
          createCommit R a (commit_message cmt) (ct_sha tree) [commit_sha baseCommit]
            (Some (commit_author cmt)) (Some (commit_committer cmt)))))"

text \<open>
  \<open>rebaseCommits\<close>, with the reducer of its promise chain as \<open>rebase_step\<close>. The first
  branch returns \<open>last(commits)\<close>, which lodash leaves
  \<open>undefined\<close> on the empty array; reading \<open>commits[0].parents[0].sha\<close> of a commit
  without parents throws a \<open>TypeError\<close>.
\<close>

definition rebase_step :: "remote \<Rightarrow> API \<Rightarrow> GitCommit prog \<Rightarrow> GitCommit \<Rightarrow> GitCommit prog" where
  "rebase_step R a lastCommitPromise cmt =
     await lastCommitPromise (\<lambda>newParent. rebaseSingleCommit R a newParent cmt)"

definition rebaseCommits ::
  "remote \<Rightarrow> API \<Rightarrow> GitCommit \<Rightarrow> GitCommit list \<Rightarrow> GitCommit option prog" where
  "rebaseCommits R a baseCommit commits =
     (if commits = [] then resolve (last_opt commits)
      else (case commit_parents (hd commits) of
              [] \<Rightarrow> reject TypeError
            | parent # _ \<Rightarrow>
                if parent = commit_sha baseCommit then resolve (last_opt commits)
                else await (foldl (rebase_step R a) (resolve baseCommit) commits)
                           (\<lambda>newHead. resolve (Some newHead))))"

definition compareBranchToDefault ::
  "remote \<Rightarrow> API \<Rightarrow> string \<Rightarrow> (GitCommit \<times> GitCommit list) prog" where
  "compareBranchToDefault R a branchName =
     await (getHeadReference R a branchName) (\<lambda>headReference.
     await (request R (Compare (originRepoURL a) (branch a) headReference)) response_compare)"

definition rebaseBranch :: "remote \<Rightarrow> API \<Rightarrow> string \<Rightarrow> GitCommit option prog" where
  "rebaseBranch R a branchName =
     catch (await (compareBranchToDefault R a branchName) (\<lambda>(baseCommit, commits).
            rebaseCommits R a baseCommit commits))
           (\<lambda>err. reject err)"

subsection \<open>Open authoring, migration and listing\<close>

text \<open>
  \<open>getUpdatedOpenAuthoringMetadata\<close>. The result \<open>None\<close> is the \<open>undefined\<close> of the
  bare \<open>return\<close>. The fallback \<open>|| {}\<close> is for a falsy document, which the type
  \<open>Metadata\<close> of \<open>retrieveMetadata\<close> excludes. The first \<open>storeMetadata\<close> and
  \<open>deleteUnpublishedEntry\<close> are called without \<open>await\<close>.
\<close>

definition getUpdatedOpenAuthoringMetadata ::
  "remote \<Rightarrow> API \<Rightarrow> string \<Rightarrow> Metadata option \<Rightarrow> Metadata option prog" where
  "getUpdatedOpenAuthoringMetadata R a contentKey metadataArg =
     await (case metadataArg of
              Some m \<Rightarrow> resolve m
            | None \<Rightarrow> retrieveMetadata R a contentKey) (\<lambda>metadata.
       (case md_pr metadata of
          None \<Rightarrow>
            if md_status metadata \<noteq> ''draft''
            then (let newMetadata = metadata\<lparr>md_status := ''draft''\<rparr>
                  in await (detach (storeMetadata R a contentKey newMetadata)) (\<lambda>_.
                     resolve (Some newMetadata)))
            else resolve (Some metadata)
        | Some prMetadata \<Rightarrow>
            await (getPullRequest R a (pr_number prMetadata)) (\<lambda>originPRInfo.
              if pull_state originPRInfo = ''closed'' \<and> truthy_str (pull_merged_at originPRInfo)
              then (let collection = md_collection metadata;
                        slug = slugFromContentKey a contentKey collection
                    in await (detach (deleteUnpublishedEntry R a collection slug)) (\<lambda>_.
                       resolve None))
              else if pull_state originPRInfo = ''closed''
                        \<and> \<not> truthy_str (pull_merged_at originPRInfo)
              then (if md_status metadata \<noteq> ''draft''
                    then (let newMetadata = metadata\<lparr>md_status := ''draft''\<rparr>
                          in await (storeMetadata R a contentKey newMetadata) (\<lambda>_.
                             resolve (Some newMetadata)))
                    else resolve (Some metadata))
              else (if md_status metadata \<noteq> ''pending_review''
                    then (let newMetadata = metadata\<lparr>md_status := ''pending_review''\<rparr>
                          in await (storeMetadata R a contentKey newMetadata) (\<lambda>_.
                             resolve (Some newMetadata)))
                    else resolve (Some metadata)))))"

text \<open>
  \<open>migrateToVersion1\<close>. \<open>(metaData.pr as PR).head as string\<close>: an absent pull request
  throws a \<open>TypeError\<close>, and a head that is an object is excluded by the cast.
\<close>

definition head_as_string :: "PRHead \<Rightarrow> string prog" where
  "head_as_string h = (case h of HeadString sha \<Rightarrow> resolve sha | HeadObject sha \<Rightarrow> reject ShapeError)"

definition migrateToVersion1 :: "remote \<Rightarrow> API \<Rightarrow> Branch \<Rightarrow> Metadata \<Rightarrow> Branch prog" where
  "migrateToVersion1 R a br metaData =
     (let oldContentKey = substring (branch_ref br) (length ''refs/heads/cms/'');
          newContentKey = md_collection metaData @ ''/'' @ oldContentKey;
          newBranchName = ''cms/'' @ newContentKey
      in (case md_pr metaData of
            None \<Rightarrow> reject TypeError
          | Some oldPR \<Rightarrow>
              await (head_as_string (pr_head oldPR)) (\<lambda>head_sha.
              await (createBranch R a newBranchName head_sha) (\<lambda>r.
              await (response_branch r) (\<lambda>newBranch.
              await (createPR R a (md_commitMessage metaData) newBranchName) (\<lambda>pr.
              await (storeMetadata R a newContentKey
                       (metaData\<lparr> md_pr := Some \<lparr>pr_number = pull_number pr,
                                                    pr_head = HeadString (pull_head_sha pr)\<rparr>,
                                  md_branch := newBranchName,
                                  md_version := Some ''1'' \<rparr>)) (\<lambda>_.
              await (closePR R a oldPR) (\<lambda>_.
              await (deleteBranch R a (md_branch metaData)) (\<lambda>_.
              await (deleteMetadata R a oldContentKey) (\<lambda>_.
              resolve newBranch))))))))))"

definition migrateBranch :: "remote \<Rightarrow> API \<Rightarrow> Branch \<Rightarrow> Branch prog" where
  "migrateBranch R a br =
     await (retrieveMetadata R a (contentKeyFromRef (branch_ref br))) (\<lambda>metadata.
       if \<not> truthy_str (md_version metadata)
       then migrateToVersion1 R a br metadata
       else resolve br)"

definition getPRsForBranchName :: "remote \<Rightarrow> API \<Rightarrow> string \<Rightarrow> string list prog" where
  "getPRsForBranchName R a branchName =
     await (requestAllPages R (ListPulls (repoURL a) branchName (branch a)))
           (\<lambda>r. case r of PullsResponse refs \<Rightarrow> resolve refs | _ \<Rightarrow> reject ShapeError)"

definition replace404WithEmptyArray :: "error \<Rightarrow> Branch list prog" where
  "replace404WithEmptyArray err =
     (if error_status err = Some 404 then resolve [] else reject err)"

text \<open>
  \<open>map\<close> over the branches with an asynchronous function: the source starts every call
  before it awaits any; here the calls run one after the other, in the order of the
  list, each to its end.
\<close>

primrec map_promises :: "('a \<Rightarrow> 'b prog) \<Rightarrow> 'a list \<Rightarrow> state \<Rightarrow> 'b outcome list \<times> state" where
  "map_promises f [] s = ([], s)"
| "map_promises f (x # xs) s =
     (case f x s of
        (r, s') \<Rightarrow> (case map_promises f xs s' of (rs, s'') \<Rightarrow> (r # rs, s'')))"

text \<open>
  Modelled from the spec: \<open>onlySuccessfulPromises\<close> of \<open>netlify-cms-lib-util\<close> is not
  among the sources. "Entries whose reconciliation/migration step fails are dropped
  from the listing rather than failing the whole call." It waits for every promise, so
  one that never settles leaves the listing unsettled.
\<close>

fun successes :: "'b outcome list \<Rightarrow> 'b list" where
  "successes [] = []"
| "successes (Resolved x # rs) = x # successes rs"
| "successes (Rejected e # rs) = successes rs"
| "successes (Pending # rs) = successes rs"

definition onlySuccessfulPromises :: "'b outcome list \<Rightarrow> 'b list prog" where
  "onlySuccessfulPromises rs s =
     (if Pending \<in> set rs then (Pending, s) else (Resolved (successes rs), s))"

definition response_branches :: "response \<Rightarrow> Branch list prog" where
  "response_branches r = (case r of RefsResponse bs \<Rightarrow> resolve bs | _ \<Rightarrow> reject ShapeError)"

definition getUpdatedOpenAuthoringBranch :: "remote \<Rightarrow> API \<Rightarrow> Branch \<Rightarrow> Branch prog" where
  "getUpdatedOpenAuthoringBranch R a br =
     (let contentKey = contentKeyFromRef (branch_ref br)
      in await (getUpdatedOpenAuthoringMetadata R a contentKey None) (\<lambda>metadata.
           case metadata of
             None \<Rightarrow> reject (Reason ''Unpublished entry was removed'')
           | Some m \<Rightarrow> resolve br))"

definition listUnpublishedBranches :: "remote \<Rightarrow> API \<Rightarrow> Branch list prog" where
  "listUnpublishedBranches R a =
     catch
       (await (catch (await (request R (ListRefs (repoURL a) ''heads/cms'')) response_branches)
                     replace404WithEmptyArray) (\<lambda>branches.
          if truthy (useOpenAuthoring a)
          then (\<lambda>s. case map_promises (getUpdatedOpenAuthoringBranch R a) branches s of
                       (rs, s') \<Rightarrow> onlySuccessfulPromises rs s')
          else await (getPRsForBranchName R a CMS_BRANCH_PREFIX) (\<lambda>prs.
                 (\<lambda>s. case map_promises (migrateBranch R a)
                              (filter (\<lambda>br. \<exists>pr \<in> set prs. pr = branchNameFromRef (branch_ref br))
                                      branches) s of
                        (rs, s') \<Rightarrow> onlySuccessfulPromises rs s'))))
       (\<lambda>err. reject err)"

subsection \<open>Notions for the proofs about the metadata store\<close>

text \<open>
  \<open>idle\<close>: no write holds the slot of the semaphore and none waits for it. \<open>plain\<close>: an
  operation that always settles and leaves the semaphore alone. The two chains are the
  calls of the \<open>try\<close> blocks of \<open>deleteMetadata\<close> and \<open>storeMetadata\<close>, up to
  \<open>patchRef\<close>.
\<close>

definition idle :: "state \<Rightarrow> bool" where
  "idle s = (\<not> held (the_semaphore s) \<and> waiting (the_semaphore s) = [])"

definition plain :: "'a prog \<Rightarrow> bool" where
  "plain m = (\<forall>s. fst (m s) \<noteq> Pending \<and> metadataSemaphore (snd (m s)) = metadataSemaphore s)"

definition deleteMetadata_steps :: "remote \<Rightarrow> API \<Rightarrow> string \<Rightarrow> response prog" where
  "deleteMetadata_steps R a key =
     await (checkMetadataRef R a) (\<lambda>branchData.
     await (updateTree R a branchData
              [\<lparr>tf_path = key @ ''.json'', tf_sha = None\<rparr>]) (\<lambda>changeTree.
     await (commit R a (''Deleting '' @ ldquo @ key @ rdquo @ '' metadata'') changeTree) (\<lambda>c.
     patchRef R a ''meta'' ''_netlify_cms'' (commit_sha c) None)))"

definition storeMetadata_calls :: "remote \<Rightarrow> API \<Rightarrow> string \<Rightarrow> Metadata \<Rightarrow> response prog" where
  "storeMetadata_calls R a key d =
     await (checkMetadataRef R a) (\<lambda>branchData.
     await (uploadBlob R a (MetadataJson d)) (\<lambda>file_sha.
     await (updateTree R a branchData
              [\<lparr>tf_path = key @ ''.json'', tf_sha = Some file_sha\<rparr>]) (\<lambda>changeTree.
     await (commit R a (''Updating '' @ ldquo @ key @ rdquo @ '' metadata'') changeTree) (\<lambda>c.
     patchRef R a ''meta'' ''_netlify_cms'' (commit_sha c) None))))"

subsection \<open>The translation of a diff in the words of the specification\<close>

text \<open>
  A renamed file is a deletion of the old path and an addition of the new path with
  the sha of the content, a removed file is a deletion, any other changed file an
  addition with its sha.
\<close>

definition spec_changes :: "CompareFile \<Rightarrow> TreeFile list" where
  "spec_changes f =
     (if file_status f = ''renamed''
      then [\<lparr>tf_path = the (file_previous_filename f), tf_sha = None\<rparr>,
            \<lparr>tf_path = file_filename f, tf_sha = Some (file_sha f)\<rparr>]
      else if file_status f = ''removed''
      then [\<lparr>tf_path = file_filename f, tf_sha = None\<rparr>]
      else [\<lparr>tf_path = file_filename f, tf_sha = Some (file_sha f)\<rparr>])"

subsection \<open>Instances for the examples\<close>

definition standard_config :: Config where
  "standard_config =
     \<lparr> cfg_apiRoot = None, cfg_token = None, cfg_branch = None,
       cfg_useOpenAuthoring = Some False, cfg_repo = Some ''owner/repo'',
       cfg_originRepo = None, cfg_squashMerges = False,
       cfg_initialWorkflowStatus = ''draft'' \<rparr>"

text \<open>The standard variant on the repository \<open>owner/repo\<close>.\<close>

definition standard_api :: API where
  "standard_api = new_API standard_config"

text \<open>The fork variant: the contributor's fork \<open>me/repo\<close> of \<open>owner/repo\<close>.\<close>

definition fork_api :: API where
  "fork_api = new_API (standard_config\<lparr> cfg_useOpenAuthoring := Some True,
                 cfg_repo := Some ''me/repo'', cfg_originRepo := Some ''owner/repo'' \<rparr>)"

definition initial_state :: state where
  "initial_state =
     \<lparr> trace = [], clock = 0, localForage = (\<lambda>k. None), userPromise = None,
       metadataSemaphore = None \<rparr>"

definition someone :: GitHubAuthor where
  "someone = \<lparr>author_name = ''Ann'', author_email = ''ann@example.org'',
              author_date = ''2020-01-01T00:00:00Z''\<rparr>"

definition entry_metadata :: Metadata where
  "entry_metadata =
     \<lparr> md_type = ''PR'',
       md_objects = \<lparr> obj_entry = \<lparr>mf_sha = ''e1'', mf_path = ''content/posts/hello.md''\<rparr>,
                      obj_files = [\<lparr>mf_sha = ''f1'', mf_path = ''/static/img/cat.png''\<rparr>] \<rparr>,
       md_branch = ''cms/posts/hello'',
       md_status = ''pending_publish'',
       md_pr = Some \<lparr>pr_number = 7, pr_head = HeadString ''head7''\<rparr>,
       md_collection = ''posts'',
       md_commitMessage = ''Create Post'',
       md_version = Some ''1'',
       md_user = ''Ann'',
       md_title = None,
       md_description = None,
       md_timeStamp = ''2020-01-01T00:00:00Z'' \<rparr>"

definition renamed_file :: CompareFile where
  "renamed_file =
     \<lparr> file_status = ''renamed'', file_filename = ''b.md'',
       file_previous_filename = Some ''a.md'', file_sha = ''x1'' \<rparr>"

definition base_commit :: GitCommit where
  "base_commit =
     \<lparr> commit_sha = ''base1'', commit_parents = [''base0''], commit_message = ''Tip'',
       commit_author = someone, commit_committer = someone \<rparr>"

definition branch_commit :: GitCommit where
  "branch_commit =
     \<lparr> commit_sha = ''old1'', commit_parents = [''base0''], commit_message = ''Rename'',
       commit_author = someone, commit_committer = someone \<rparr>"

text \<open>A second commit of the branch, which modifies \<open>b.md\<close>.\<close>

definition modified_file :: CompareFile where
  "modified_file =
     \<lparr> file_status = ''modified'', file_filename = ''b.md'',
       file_previous_filename = None, file_sha = ''x2'' \<rparr>"

definition branch_commit2 :: GitCommit where
  "branch_commit2 =
     \<lparr> commit_sha = ''old2'', commit_parents = [''old1''], commit_message = ''Edit'',
       commit_author = someone, commit_committer = someone \<rparr>"

text \<open>A remote on which every call succeeds.\<close>

fun ok_response :: "request \<Rightarrow> response" where
  "ok_response (GetRef u ty n) = RefResponse (''refs/'' @ ty @ ''/'' @ n) ''meta0''"
| "ok_response (ListRefs u p) = RefsResponse [Branch ''refs/heads/cms/me/repo/posts/hello'']"
| "ok_response (CreateBlob u c) = ShaResponse ''blob1''"
| "ok_response (CreateTree u b t) = ShaResponse ''tree1''"
| "ok_response (CreateCommit u m t ps au co) =
     CommitResponse \<lparr> commit_sha = ''commit1'', commit_parents = ps, commit_message = m,
                      commit_author = someone, commit_committer = someone \<rparr>"
| "ok_response (CreateRef u r sha) = RefResponse r sha"
| "ok_response (PatchRef u ty n sha f) = RefResponse (''refs/'' @ ty @ ''/'' @ n) sha"
| "ok_response (DeleteRef u ty n) = OtherResponse"
| "ok_response (GetBranch u b) = BranchResponse ''tip0''"
| "ok_response (GetContents u p) = ContentsResponse (Some entry_metadata)"
| "ok_response (Compare u b h) = CompareResponse base_commit [branch_commit] [renamed_file]"
| "ok_response GetUser = UserResponse \<lparr>user_name = Some ''Ann'', user_login = ''me''\<rparr>"
| "ok_response (GetPull u n) =
     PullResponse \<lparr> pull_number = n, pull_head_sha = ''head7'', pull_state = ''closed'',
                    pull_merged_at = Some ''2020-02-02T00:00:00Z'' \<rparr>"
| "ok_response (ListPulls u h b) = PullsResponse []"
| "ok_response (CreatePull u t h b) =
     PullResponse \<lparr> pull_number = 8, pull_head_sha = ''head8'', pull_state = ''open'',
                    pull_merged_at = None \<rparr>"
| "ok_response (PatchPull u n st) =
     PullResponse \<lparr> pull_number = n, pull_head_sha = ''head7'', pull_state = st,
                    pull_merged_at = None \<rparr>"
| "ok_response (MergePull u n h m) = OtherResponse"

definition remote_ok :: remote where
  "remote_ok = \<lparr> respond = (\<lambda>tr rq. Inr (ok_response rq)), elapsed = (\<lambda>tr rq. 10) \<rparr>"

text \<open>
  A remote for a rebase: the tree and the commit it creates are named after what they
  are built on.
\<close>

definition remote_rebase :: remote where
  "remote_rebase =
     \<lparr> respond = (\<lambda>tr rq. case rq of
                      Compare u b h \<Rightarrow>
                        Inr (CompareResponse base_commit [branch_commit, branch_commit2]
                               (if h = ''old2'' then [modified_file] else [renamed_file]))
                    | CreateTree u b t \<Rightarrow> Inr (ShaResponse (''tree-on-'' @ the b))
                    | CreateCommit u m t ps au co \<Rightarrow>
                        Inr (CommitResponse
                               \<lparr> commit_sha = ''new-on-'' @ concat ps, commit_parents = ps,
                                 commit_message = m, commit_author = the au,
                                 commit_committer = the co \<rparr>)
                    | _ \<Rightarrow> Inr (ok_response rq)),
       elapsed = (\<lambda>tr rq. 10) \<rparr>"

text \<open>The same remote, except that merging a pull request is refused with status 405.\<close>

definition remote_405 :: remote where
  "remote_405 =
     \<lparr> respond = (\<lambda>tr rq. case rq of
                      MergePull u n h m \<Rightarrow> Inl (Failure (Some ''Pull Request is not mergeable'') (Some 405))
                    | _ \<Rightarrow> Inr (ok_response rq)),
       elapsed = (\<lambda>tr rq. 10) \<rparr>"

text \<open>The same remote, except that the merge is refused with status 409.\<close>

definition remote_409 :: remote where
  "remote_409 =
     \<lparr> respond = (\<lambda>tr rq. case rq of
                      MergePull u n h m \<Rightarrow> Inl (Failure (Some ''Head branch was modified'') (Some 409))
                    | _ \<Rightarrow> Inr (ok_response rq)),
       elapsed = (\<lambda>tr rq. 10) \<rparr>"

text \<open>A remote on which every call fails with status 500.\<close>

definition remote_down :: remote where
  "remote_down =
     \<lparr> respond = (\<lambda>tr rq. Inl (Failure (Some ''Server Error'') (Some 500))),
       elapsed = (\<lambda>tr rq. 10) \<rparr>"

text \<open>
  A remote whose refs another writer has moved: every update of a ref is refused as not
  being a fast-forward, every other call succeeds.
\<close>

definition remote_conflict :: remote where
  "remote_conflict =
     \<lparr> respond = (\<lambda>tr rq. case rq of
                      PatchRef u ty n sha f \<Rightarrow>
                        Inl (Failure (Some ''Update is not a fast forward'') (Some 422))
                    | _ \<Rightarrow> Inr (ok_response rq)),
       elapsed = (\<lambda>tr rq. 10) \<rparr>"

section \<open>Properties\<close>

subsection \<open>Promises and the example remotes\<close>

lemma await_resolve [simp]: "await (resolve x) f = f x"
  by (rule ext) (simp add: await_def resolve_def)

lemma remote_ok_simps:
  "respond remote_ok tr rq = Inr (ok_response rq)" "elapsed remote_ok tr rq = 10"
  by (simp_all add: remote_ok_def)

subsection \<open>Content keys and branch names\<close>

lemma standard_api_simps:
  "repo standard_api = ''owner/repo''"
  "useOpenAuthoring standard_api = Some False"
  "branch standard_api = ''master''"
  "repoURL standard_api = ''/repos/owner/repo''"
  "originRepoURL standard_api = ''/repos/owner/repo''"
  "mergeMethod standard_api = ''merge''"
  by (simp_all add: standard_api_def new_API_def standard_config_def str_or_def Let_def)

lemma fork_api_simps:
  "repo fork_api = ''me/repo''"
  "useOpenAuthoring fork_api = Some True"
  "branch fork_api = ''master''"
  "repoURL fork_api = ''/repos/me/repo''"
  "originRepoURL fork_api = ''/repos/owner/repo''"
  "mergeMethod fork_api = ''merge''"
  by (simp_all add: fork_api_def new_API_def standard_config_def str_or_def Let_def)

lemma generateContentKey_any_variant:
  "generateContentKey a collectionName slug = repo a @ ''/'' @ collectionName @ ''/'' @ slug"
  by (simp add: generateContentKey_def Let_def)

text \<open>
  Claim C1. In the standard variant (\<open>useOpenAuthoring = false\<close>) the content key of
  collection \<open>posts\<close> and slug \<open>hello\<close> should be \<open>posts/hello\<close>, the value of the
  library function. On the repository \<open>owner/repo\<close> the method returns
  \<open>owner/repo/posts/hello\<close>: the value of the library call is dropped, and the
  prefixed key of the fork variant is returned in both variants.
\<close>

theorem generateContentKey_standard_not_collection_slug:
  "generateContentKey standard_api ''posts'' ''hello'' = ''owner/repo/posts/hello''
   \<and> lib_generateContentKey ''posts'' ''hello'' = ''posts/hello''
   \<and> generateContentKey standard_api ''posts'' ''hello''
       \<noteq> lib_generateContentKey ''posts'' ''hello''"
  by (simp add: generateContentKey_def lib_generateContentKey_def standard_api_simps)

text \<open>
  The two parts of the round trip that hold: the content key is read back from the ref
  of its branch, and in the fork variant the slug is read back from the content key.
\<close>

lemma contentKeyFromRef_generateBranchName:
  "contentKeyFromRef (''refs/heads/'' @ generateBranchName K) = K"
  by (simp add: contentKeyFromRef_def generateBranchName_def substring_def)

lemma slugFromContentKey_fork:
  "truthy (useOpenAuthoring a) \<Longrightarrow>
   slugFromContentKey a (generateContentKey a collectionName slug) collectionName = slug"
  by (simp add: slugFromContentKey_def generateContentKey_any_variant substring_def)

text \<open>
  Claim C6. \<open>slugFromContentKey\<close> should recover the slug from the generated content key
  in either variant. In the standard variant on \<open>owner/repo\<close>, collection \<open>posts\<close> and
  slug \<open>hello\<close> give the key \<open>owner/repo/posts/hello\<close>, from which
  \<open>slugFromContentKey\<close> cuts the six units of \<open>posts/\<close> and returns
  \<open>repo/posts/hello\<close>.
\<close>

theorem slugFromContentKey_standard_not_inverse:
  "slugFromContentKey standard_api (generateContentKey standard_api ''posts'' ''hello'') ''posts''
     = ''repo/posts/hello''
   \<and> slugFromContentKey standard_api (generateContentKey standard_api ''posts'' ''hello'') ''posts''
     \<noteq> ''hello''"
  by (simp add: slugFromContentKey_def generateContentKey_def standard_api_simps truthy_def
        substring_def)

subsection \<open>Forced updates of a branch\<close>

text \<open>
  Claim C10. For a branch name that does not start with the workflow prefix followed by
  a slash, \<open>patchBranch\<close> with \<open>force = true\<close> throws and leaves the state as it was, so
  no call reaches the remote. Hence whenever \<open>patchBranch\<close> adds a forced ref update to
  the calls made, the branch is a workflow branch; and \<open>patchBranch\<close> adds nothing but
  at most one update of \<open>heads/branchName\<close>.
\<close>

theorem patchBranch_force_only_cms:
  "(\<not> assertCmsBranch branchName \<longrightarrow>
      patchBranch R a branchName sha (Some True) s
        = (Rejected (Error (''Only CMS branches can be force updated, cannot force update ''
                              @ branchName)), s))
   \<and> (trace (snd (patchBranch R a branchName sha opts_force s))
        = trace s @ [PatchRef u ty n sh True] \<longrightarrow> assertCmsBranch branchName \<and> n = branchName)
   \<and> (trace (snd (patchBranch R a branchName sha opts_force s)) = trace s
      \<or> (\<exists>f. trace (snd (patchBranch R a branchName sha opts_force s))
            = trace s @ [PatchRef (repoURL a) ''heads'' branchName sha f]))"
  by (auto simp: patchBranch_def patchRef_def request_def reject_def truthy_def Let_def
           split: sum.splits failure.splits)

theorem patchBranch_force_only_cms_witness:
  "\<not> assertCmsBranch ''master''
   \<and> patchBranch remote_ok standard_api ''master'' ''commit1'' (Some True) initial_state
       = (Rejected (Error ''Only CMS branches can be force updated, cannot force update master''),
          initial_state)
   \<and> trace (snd (patchBranch remote_ok standard_api ''cms/posts/hello'' ''commit1'' (Some True)
                   initial_state))
       = trace initial_state
           @ [PatchRef ''/repos/owner/repo'' ''heads'' ''cms/posts/hello'' ''commit1'' True]
   \<and> assertCmsBranch ''cms/posts/hello''"
proof -
  have no: "\<not> assertCmsBranch ''master''"
    by (simp add: assertCmsBranch_def startsWith_def CMS_BRANCH_PREFIX_def)
  have forced: "trace (snd (patchBranch remote_ok standard_api ''cms/posts/hello'' ''commit1''
                   (Some True) initial_state))
       = trace initial_state
           @ [PatchRef ''/repos/owner/repo'' ''heads'' ''cms/posts/hello'' ''commit1'' True]"
    by (simp add: patchBranch_def patchRef_def request_def truthy_def Let_def remote_ok_def
          assertCmsBranch_def startsWith_def CMS_BRANCH_PREFIX_def standard_api_simps)
  from no forced
    patchBranch_force_only_cms [where branchName = "''master''" and R = remote_ok
      and a = standard_api and sha = "''commit1''" and s = initial_state]
    patchBranch_force_only_cms [where branchName = "''cms/posts/hello''" and R = remote_ok
      and a = standard_api and sha = "''commit1''" and s = initial_state
      and opts_force = "Some True" and u = "''/repos/owner/repo''" and ty = "''heads''"
      and n = "''cms/posts/hello''" and sh = "''commit1''"]
  show ?thesis by simp
qed

subsection \<open>Rebase\<close>

text \<open>
  Claim C4. With no commit unique to the branch, \<open>rebaseCommits\<close> should return the
  branch's current head commit. It makes no call and resolves with \<open>undefined\<close>, the
  \<open>last\<close> element of the empty array.
\<close>

theorem rebaseCommits_empty_undefined:
  "rebaseCommits R a baseCommit [] s = (Resolved None, s)"
  by (simp add: rebaseCommits_def last_opt_def resolve_def)

text \<open>The other half of the short circuit: the last commit of the list, and no call.\<close>

lemma rebaseCommits_parent_is_base:
  "commits \<noteq> [] \<Longrightarrow> commit_parents (hd commits) = parent # ps \<Longrightarrow>
   parent = commit_sha baseCommit \<Longrightarrow>
   rebaseCommits R a baseCommit commits s = (Resolved (Some (last commits)), s)"
  by (simp add: rebaseCommits_def last_opt_def resolve_def)

lemma treeFiles_append: "foldl push_changes arr files = arr @ foldl push_changes [] files"
proof (induction files arbitrary: arr)
  case Nil
  show ?case by simp
next
  case (Cons f fs)
  have "foldl push_changes arr (f # fs) = foldl push_changes (push_changes arr f) fs" by simp
  also have "\<dots> = push_changes arr f @ foldl push_changes [] fs" by (rule Cons.IH)
  also have "push_changes arr f = arr @ push_changes [] f" by (simp add: push_changes_def)
  also have "(arr @ push_changes [] f) @ foldl push_changes [] fs
               = arr @ foldl push_changes (push_changes [] f) fs"
    using Cons.IH [of "push_changes [] f"] by simp
  finally show ?case by simp
qed

lemma treeFiles_spec_changes:
  "\<forall>f \<in> set files. file_status f = ''renamed'' \<longrightarrow> file_previous_filename f \<noteq> None \<Longrightarrow>
   treeFiles files = concat (map spec_changes files)"
proof (induction files)
  case Nil
  show ?case by (simp add: treeFiles_def)
next
  case (Cons f fs)
  have "treeFiles (f # fs) = push_changes [] f @ treeFiles fs"
    unfolding treeFiles_def using treeFiles_append [of "push_changes [] f" fs] by simp
  moreover have "push_changes [] f = spec_changes f"
    using Cons.prems by (auto simp: push_changes_def spec_changes_def)
  ultimately show ?case using Cons by simp
qed

lemma rebase_fold_rejected:
  "m s = (Rejected e, s') \<Longrightarrow> foldl (rebase_step R a) m cs s = (Rejected e, s')"
  by (induction cs arbitrary: m) (simp_all add: rebase_step_def await_def)

lemma rebase_fold_pending:
  "m s = (Pending, s') \<Longrightarrow> foldl (rebase_step R a) m cs s = (Pending, s')"
  by (induction cs arbitrary: m) (simp_all add: rebase_step_def await_def)

lemma rebase_fold_resolved:
  "m s = (Resolved c, s') \<Longrightarrow>
   foldl (rebase_step R a) m cs s = foldl (rebase_step R a) (resolve c) cs s'"
proof (induction cs arbitrary: m c s s')
  case Nil
  then show ?case by (simp add: resolve_def)
next
  case (Cons x xs)
  show ?case
  proof (cases "rebaseSingleCommit R a c x s'")
    case (Pair r t)
    show ?thesis
    proof (cases r)
      case (Resolved c')
      have 1: "rebase_step R a m x s = (Resolved c', t)"
        using Cons.prems Pair Resolved by (simp add: rebase_step_def await_def)
      have 2: "rebase_step R a (resolve c) x s' = (Resolved c', t)"
        using Pair Resolved by (simp add: rebase_step_def)
      show ?thesis
        using Cons.IH [of "rebase_step R a m x" s c' t] Cons.IH [of "rebase_step R a (resolve c) x" s' c' t] 1 2
        by simp
    next
      case (Rejected e)
      have 1: "rebase_step R a m x s = (Rejected e, t)"
        using Cons.prems Pair Rejected by (simp add: rebase_step_def await_def)
      have 2: "rebase_step R a (resolve c) x s' = (Rejected e, t)"
        using Pair Rejected by (simp add: rebase_step_def)
      show ?thesis
        using rebase_fold_rejected [of "rebase_step R a m x" s e t R a xs]
          rebase_fold_rejected [of "rebase_step R a (resolve c) x" s' e t R a xs] 1 2
        by simp
    next
      case Pending
      have 1: "rebase_step R a m x s = (Pending, t)"
        using Cons.prems Pair Pending by (simp add: rebase_step_def await_def)
      have 2: "rebase_step R a (resolve c) x s' = (Pending, t)"
        using Pair Pending by (simp add: rebase_step_def)
      show ?thesis
        using rebase_fold_pending [of "rebase_step R a m x" s t R a xs]
          rebase_fold_pending [of "rebase_step R a (resolve c) x" s' t R a xs] 1 2
        by simp
    qed
  qed
qed

text \<open>
  Claim C5. Replaying a commit whose first parent is \<open>parent\<close>: when the compare
  endpoint lists the changed files and the tree is created, the calls made are the diff
  of the commit against its parent, one tree built on the new base from the changes as
  the specification translates them (a renamed file is deleted at its previous path and
  added at its new path with its sha, a removed file is deleted, any other file is added
  with its sha), and one commit on that tree whose only parent is the base and whose
  message, author and committer are those of the replayed commit. When the commit is
  created, \<open>rebaseSingleCommit\<close> resolves with the commit the remote returned, and the
  promise chain of \<open>rebaseCommits\<close> replays the remaining commits with that commit as
  their base: the parent of each new commit is the commit the previous replay created.
\<close>

theorem rebaseSingleCommit_replays_commit:
  fixes R :: remote and a :: API and baseCommit cmt :: GitCommit and s :: state
  defines "diff_rq \<equiv> (\<lambda>parent. Compare (repoURL a) parent (commit_sha cmt))"
  defines "tree_rq \<equiv> (\<lambda>files. CreateTree (repoURL a) (Some (commit_sha baseCommit))
                          (map tree_entry (concat (map spec_changes files))))"
  defines "commit_rq \<equiv> (\<lambda>treeSha. CreateCommit (repoURL a) (commit_message cmt) treeSha
                            [commit_sha baseCommit]
                            (Some (commit_author cmt)) (Some (commit_committer cmt)))"
  defines "done \<equiv> (\<lambda>parent files treeSha.
                     s\<lparr>trace := trace s @ [diff_rq parent, tree_rq files, commit_rq treeSha],
                       clock := clock s + elapsed R (trace s) (diff_rq parent)
                                  + elapsed R (trace s @ [diff_rq parent]) (tree_rq files)
                                  + elapsed R (trace s @ [diff_rq parent, tree_rq files])
                                      (commit_rq treeSha)\<rparr>)"
  assumes parents: "commit_parents cmt = parent # ps"
    and renamed: "\<forall>f \<in> set files. file_status f = ''renamed'' \<longrightarrow> file_previous_filename f \<noteq> None"
    and diff: "respond R (trace s) (diff_rq parent) = Inr (CompareResponse b cs files)"
    and tree: "respond R (trace s @ [diff_rq parent]) (tree_rq files) = Inr (ShaResponse treeSha)"
  shows "trace (snd (rebaseSingleCommit R a baseCommit cmt s))
           = trace s @ [diff_rq parent, tree_rq files, commit_rq treeSha]
         \<and> foldl (rebase_step R a) (resolve baseCommit) (cmt # rest) s
             = (case rebaseSingleCommit R a baseCommit cmt s of
                  (Resolved newParent, s') \<Rightarrow> foldl (rebase_step R a) (resolve newParent) rest s'
                | (Rejected e, s') \<Rightarrow> (Rejected e, s')
                | (Pending, s') \<Rightarrow> (Pending, s'))
         \<and> (respond R (trace s @ [diff_rq parent, tree_rq files]) (commit_rq treeSha)
               = Inr (CommitResponse newCommit) \<longrightarrow>
              rebaseSingleCommit R a baseCommit cmt s
                = (Resolved newCommit, done parent files treeSha)
              \<and> foldl (rebase_step R a) (resolve baseCommit) (cmt # rest) s
                  = foldl (rebase_step R a) (resolve newCommit) rest (done parent files treeSha)
              \<and> (parent \<noteq> commit_sha baseCommit \<longrightarrow>
                   rebaseCommits R a baseCommit (cmt # rest) s
                     = await (foldl (rebase_step R a) (resolve newCommit) rest)
                         (\<lambda>newHead. resolve (Some newHead)) (done parent files treeSha)))"
proof (intro conjI impI)
  have tf: "treeFiles files = concat (map spec_changes files)"
    using renamed by (rule treeFiles_spec_changes)
  show "trace (snd (rebaseSingleCommit R a baseCommit cmt s))
           = trace s @ [diff_rq parent, tree_rq files, commit_rq treeSha]"
    using parents diff tree
    by (simp add: rebaseSingleCommit_def getCommitsDiff_def updateTree_def createTree_def
          createCommit_def request_def await_def response_files_def response_tree_def
          response_commit_def resolve_def reject_def tf Let_def
          diff_rq_def tree_rq_def commit_rq_def
          split: sum.splits failure.splits response.splits)
  have step: "foldl (rebase_step R a) (resolve baseCommit) (cmt # rest)
                = foldl (rebase_step R a) (rebaseSingleCommit R a baseCommit cmt) rest"
    by (simp add: rebase_step_def)
  show chain: "foldl (rebase_step R a) (resolve baseCommit) (cmt # rest) s
             = (case rebaseSingleCommit R a baseCommit cmt s of
                  (Resolved newParent, s') \<Rightarrow> foldl (rebase_step R a) (resolve newParent) rest s'
                | (Rejected e, s') \<Rightarrow> (Rejected e, s')
                | (Pending, s') \<Rightarrow> (Pending, s'))"
  proof (cases "rebaseSingleCommit R a baseCommit cmt s")
    case (Pair r t)
    then show ?thesis
      unfolding step
      by (cases r)
         (simp_all add: rebase_fold_resolved rebase_fold_rejected rebase_fold_pending)
  qed
  assume created: "respond R (trace s @ [diff_rq parent, tree_rq files]) (commit_rq treeSha)
               = Inr (CommitResponse newCommit)"
  show result: "rebaseSingleCommit R a baseCommit cmt s
                  = (Resolved newCommit, done parent files treeSha)"
    using parents diff tree created
    by (simp add: rebaseSingleCommit_def getCommitsDiff_def updateTree_def createTree_def
          createCommit_def request_def await_def response_files_def response_tree_def
          response_commit_def resolve_def tf Let_def
          diff_rq_def tree_rq_def commit_rq_def done_def)
  show next_base: "foldl (rebase_step R a) (resolve baseCommit) (cmt # rest) s
          = foldl (rebase_step R a) (resolve newCommit) rest (done parent files treeSha)"
    using chain result by simp
  assume moved: "parent \<noteq> commit_sha baseCommit"
  show "rebaseCommits R a baseCommit (cmt # rest) s
          = await (foldl (rebase_step R a) (resolve newCommit) rest)
              (\<lambda>newHead. resolve (Some newHead)) (done parent files treeSha)"
    using parents moved next_base
    by (simp add: rebaseCommits_def await_def)
qed

lemma remote_rebase_simps:
  "respond remote_rebase tr (Compare u bs h)
     = Inr (CompareResponse base_commit [branch_commit, branch_commit2]
              (if h = ''old2'' then [modified_file] else [renamed_file]))"
  "respond remote_rebase tr (CreateTree u bt es) = Inr (ShaResponse (''tree-on-'' @ the bt))"
  "respond remote_rebase tr (CreateCommit u m tsha ps au co)
     = Inr (CommitResponse
              \<lparr> commit_sha = ''new-on-'' @ concat ps, commit_parents = ps,
                commit_message = m, commit_author = the au, commit_committer = the co \<rparr>)"
  "elapsed remote_rebase tr rq = 10"
  by (simp_all add: remote_rebase_def)

theorem rebaseSingleCommit_replays_commit_witness:
  "commit_parents branch_commit = [''base0'']
   \<and> trace (snd (rebaseSingleCommit remote_ok standard_api base_commit branch_commit initial_state))
       = [Compare ''/repos/owner/repo'' ''base0'' ''old1'',
          CreateTree ''/repos/owner/repo'' (Some ''base1'')
            [\<lparr>te_path = ''a.md'', te_mode = ''100644'', te_type = ''blob'', te_sha = None\<rparr>,
             \<lparr>te_path = ''b.md'', te_mode = ''100644'', te_type = ''blob'', te_sha = Some ''x1''\<rparr>],
          CreateCommit ''/repos/owner/repo'' ''Rename'' ''tree1'' [''base1'']
            (Some someone) (Some someone)]
   \<and> fst (rebaseCommits remote_rebase standard_api base_commit [branch_commit, branch_commit2]
            initial_state)
       = Resolved (Some \<lparr> commit_sha = ''new-on-new-on-base1'',
                           commit_parents = [''new-on-base1''], commit_message = ''Edit'',
                           commit_author = someone, commit_committer = someone \<rparr>)
   \<and> trace (snd (rebaseCommits remote_rebase standard_api base_commit
                   [branch_commit, branch_commit2] initial_state))
       = [Compare ''/repos/owner/repo'' ''base0'' ''old1'',
          CreateTree ''/repos/owner/repo'' (Some ''base1'')
            [\<lparr>te_path = ''a.md'', te_mode = ''100644'', te_type = ''blob'', te_sha = None\<rparr>,
             \<lparr>te_path = ''b.md'', te_mode = ''100644'', te_type = ''blob'', te_sha = Some ''x1''\<rparr>],
          CreateCommit ''/repos/owner/repo'' ''Rename'' ''tree-on-base1'' [''base1'']
            (Some someone) (Some someone),
          Compare ''/repos/owner/repo'' ''old1'' ''old2'',
          CreateTree ''/repos/owner/repo'' (Some ''new-on-base1'')
            [\<lparr>te_path = ''b.md'', te_mode = ''100644'', te_type = ''blob'', te_sha = Some ''x2''\<rparr>],
          CreateCommit ''/repos/owner/repo'' ''Edit'' ''tree-on-new-on-base1'' [''new-on-base1'']
            (Some someone) (Some someone)]"
proof -
  let ?new1 = "\<lparr> commit_sha = ''new-on-base1'', commit_parents = [''base1''],
                  commit_message = ''Rename'', commit_author = someone,
                  commit_committer = someone \<rparr>"
  let ?new2 = "\<lparr> commit_sha = ''new-on-new-on-base1'', commit_parents = [''new-on-base1''],
                  commit_message = ''Edit'', commit_author = someone,
                  commit_committer = someone \<rparr>"
  let ?d1 = "Compare ''/repos/owner/repo'' ''base0'' ''old1''"
  let ?t1 = "CreateTree ''/repos/owner/repo'' (Some ''base1'')
            [\<lparr>te_path = ''a.md'', te_mode = ''100644'', te_type = ''blob'', te_sha = None\<rparr>,
             \<lparr>te_path = ''b.md'', te_mode = ''100644'', te_type = ''blob'', te_sha = Some ''x1''\<rparr>]"
  let ?c1 = "CreateCommit ''/repos/owner/repo'' ''Rename'' ''tree-on-base1'' [''base1'']
            (Some someone) (Some someone)"
  let ?d2 = "Compare ''/repos/owner/repo'' ''old1'' ''old2''"
  let ?t2 = "CreateTree ''/repos/owner/repo'' (Some ''new-on-base1'')
            [\<lparr>te_path = ''b.md'', te_mode = ''100644'', te_type = ''blob'', te_sha = Some ''x2''\<rparr>]"
  let ?c2 = "CreateCommit ''/repos/owner/repo'' ''Edit'' ''tree-on-new-on-base1'' [''new-on-base1'']
            (Some someone) (Some someone)"
  let ?s1 = "initial_state\<lparr>trace := [?d1, ?t1, ?c1], clock := 30\<rparr>"
  let ?s2 = "initial_state\<lparr>trace := [?d1, ?t1, ?c1, ?d2, ?t2, ?c2], clock := 60\<rparr>"
  have parents: "commit_parents branch_commit = ''base0'' # []"
    by (simp add: branch_commit_def)
  have parents2: "commit_parents branch_commit2 = ''old1'' # []"
    by (simp add: branch_commit2_def)
  have renamed: "\<forall>f \<in> set [renamed_file].
                   file_status f = ''renamed'' \<longrightarrow> file_previous_filename f \<noteq> None"
    by (simp add: renamed_file_def)
  have renamed2: "\<forall>f \<in> set [modified_file].
                   file_status f = ''renamed'' \<longrightarrow> file_previous_filename f \<noteq> None"
    by (simp add: modified_file_def)
  have entries1: "map tree_entry (concat (map spec_changes [renamed_file]))
                    = [\<lparr>te_path = ''a.md'', te_mode = ''100644'', te_type = ''blob'', te_sha = None\<rparr>,
                       \<lparr>te_path = ''b.md'', te_mode = ''100644'', te_type = ''blob'',
                         te_sha = Some ''x1''\<rparr>]"
    by (simp add: spec_changes_def renamed_file_def tree_entry_def trimStart_def)
  have entries2: "map tree_entry (concat (map spec_changes [modified_file]))
                    = [\<lparr>te_path = ''b.md'', te_mode = ''100644'', te_type = ''blob'',
                         te_sha = Some ''x2''\<rparr>]"
    by (simp add: spec_changes_def modified_file_def tree_entry_def trimStart_def)
  \<comment> \<open>one replay on the remote that answers every call alike\<close>
  have diff0: "respond remote_ok (trace initial_state)
                (Compare (repoURL standard_api) ''base0'' (commit_sha branch_commit))
              = Inr (CompareResponse base_commit [branch_commit] [renamed_file])"
    by (simp add: remote_ok_simps)
  have tree0: "respond remote_ok
                (trace initial_state
                   @ [Compare (repoURL standard_api) ''base0'' (commit_sha branch_commit)])
                (CreateTree (repoURL standard_api) (Some (commit_sha base_commit))
                   (map tree_entry (concat (map spec_changes [renamed_file]))))
              = Inr (ShaResponse ''tree1'')"
    by (simp add: remote_ok_simps)
  from rebaseSingleCommit_replays_commit [OF parents renamed diff0 tree0, THEN conjunct1]
  have single: "trace (snd (rebaseSingleCommit remote_ok standard_api base_commit branch_commit
                              initial_state))
       = [Compare ''/repos/owner/repo'' ''base0'' ''old1'',
          CreateTree ''/repos/owner/repo'' (Some ''base1'')
            [\<lparr>te_path = ''a.md'', te_mode = ''100644'', te_type = ''blob'', te_sha = None\<rparr>,
             \<lparr>te_path = ''b.md'', te_mode = ''100644'', te_type = ''blob'', te_sha = Some ''x1''\<rparr>],
          CreateCommit ''/repos/owner/repo'' ''Rename'' ''tree1'' [''base1'']
            (Some someone) (Some someone)]"
    by (simp add: initial_state_def standard_api_simps branch_commit_def base_commit_def
          spec_changes_def renamed_file_def tree_entry_def trimStart_def)
  \<comment> \<open>two replays in a chain\<close>
  have diff1: "respond remote_rebase (trace initial_state)
                (Compare (repoURL standard_api) ''base0'' (commit_sha branch_commit))
              = Inr (CompareResponse base_commit [branch_commit, branch_commit2] [renamed_file])"
    by (simp add: remote_rebase_simps branch_commit_def)
  have tree1: "respond remote_rebase
                (trace initial_state
                   @ [Compare (repoURL standard_api) ''base0'' (commit_sha branch_commit)])
                (CreateTree (repoURL standard_api) (Some (commit_sha base_commit))
                   (map tree_entry (concat (map spec_changes [renamed_file]))))
              = Inr (ShaResponse ''tree-on-base1'')"
    by (simp add: remote_rebase_simps base_commit_def)
  have commit1: "respond remote_rebase
                (trace initial_state
                   @ [Compare (repoURL standard_api) ''base0'' (commit_sha branch_commit),
                      CreateTree (repoURL standard_api) (Some (commit_sha base_commit))
                        (map tree_entry (concat (map spec_changes [renamed_file])))])
                (CreateCommit (repoURL standard_api) (commit_message branch_commit)
                   ''tree-on-base1'' [commit_sha base_commit]
                   (Some (commit_author branch_commit)) (Some (commit_committer branch_commit)))
              = Inr (CommitResponse ?new1)"
    by (simp add: remote_rebase_simps base_commit_def branch_commit_def)
  have moved: "''base0'' \<noteq> commit_sha base_commit"
    by (simp add: base_commit_def)
  from rebaseSingleCommit_replays_commit [OF parents renamed diff1 tree1,
      where rest = "[branch_commit2]" and newCommit = ?new1,
      THEN conjunct2, THEN conjunct2, THEN mp, OF commit1,
      THEN conjunct2, THEN conjunct2, THEN mp, OF moved]
  have first: "rebaseCommits remote_rebase standard_api base_commit
                 [branch_commit, branch_commit2] initial_state
               = await (foldl (rebase_step remote_rebase standard_api) (resolve ?new1)
                          [branch_commit2])
                   (\<lambda>newHead. resolve (Some newHead)) ?s1"
    by (simp add: remote_rebase_simps initial_state_def standard_api_simps
          branch_commit_def base_commit_def
          spec_changes_def renamed_file_def tree_entry_def trimStart_def)
  have diff2: "respond remote_rebase (trace ?s1)
                (Compare (repoURL standard_api) ''old1'' (commit_sha branch_commit2))
              = Inr (CompareResponse base_commit [branch_commit, branch_commit2] [modified_file])"
    by (simp add: remote_rebase_simps branch_commit2_def)
  have tree2: "respond remote_rebase
                (trace ?s1 @ [Compare (repoURL standard_api) ''old1'' (commit_sha branch_commit2)])
                (CreateTree (repoURL standard_api) (Some (commit_sha ?new1))
                   (map tree_entry (concat (map spec_changes [modified_file]))))
              = Inr (ShaResponse ''tree-on-new-on-base1'')"
    by (simp add: remote_rebase_simps)
  have commit2: "respond remote_rebase
                (trace ?s1
                   @ [Compare (repoURL standard_api) ''old1'' (commit_sha branch_commit2),
                      CreateTree (repoURL standard_api) (Some (commit_sha ?new1))
                        (map tree_entry (concat (map spec_changes [modified_file])))])
                (CreateCommit (repoURL standard_api) (commit_message branch_commit2)
                   ''tree-on-new-on-base1'' [commit_sha ?new1]
                   (Some (commit_author branch_commit2)) (Some (commit_committer branch_commit2)))
              = Inr (CommitResponse ?new2)"
    by (simp add: remote_rebase_simps branch_commit2_def)
  from rebaseSingleCommit_replays_commit [OF parents2 renamed2 diff2 tree2,
      where rest = "[]" and newCommit = ?new2,
      THEN conjunct2, THEN conjunct2, THEN mp, OF commit2,
      THEN conjunct2, THEN conjunct1]
  have second: "foldl (rebase_step remote_rebase standard_api) (resolve ?new1) [branch_commit2] ?s1
                  = (Resolved ?new2, ?s2)"
    by (simp add: remote_rebase_simps initial_state_def standard_api_simps
          branch_commit2_def resolve_def
          spec_changes_def modified_file_def tree_entry_def trimStart_def)
  have whole: "rebaseCommits remote_rebase standard_api base_commit
                 [branch_commit, branch_commit2] initial_state
               = (Resolved (Some ?new2), ?s2)"
    unfolding first await_def second by (simp add: resolve_def)
  have r1: "fst (rebaseCommits remote_rebase standard_api base_commit
                   [branch_commit, branch_commit2] initial_state) = Resolved (Some ?new2)"
    unfolding whole by simp
  have r2: "trace (snd (rebaseCommits remote_rebase standard_api base_commit
                   [branch_commit, branch_commit2] initial_state))
              = [?d1, ?t1, ?c1, ?d2, ?t2, ?c2]"
    unfolding whole by (simp add: initial_state_def)
  have p: "commit_parents branch_commit = [''base0'']"
    by (simp add: branch_commit_def)
  show ?thesis
    using p single r1 r2 by (intro conjI) assumption+
qed

subsection \<open>Publishing\<close>

lemma remote_405_simps:
  "respond remote_405 tr (MergePull u n h m)
     = Inl (Failure (Some ''Pull Request is not mergeable'') (Some 405))"
  "respond remote_405 tr (GetBranch u b) = Inr (BranchResponse ''tip0'')"
  "respond remote_405 tr (CreateTree u bt t) = Inr (ShaResponse ''tree1'')"
  "respond remote_405 tr (CreateCommit u msg tsha ps au co)
     = Inr (ok_response (CreateCommit u msg tsha ps au co))"
  "respond remote_405 tr (PatchRef u ty nm sha f) = Inr (ok_response (PatchRef u ty nm sha f))"
  "respond remote_405 tr (GetContents u p) = Inr (ContentsResponse (Some entry_metadata))"
  "elapsed remote_405 tr rq = 10"
  by (simp_all add: remote_405_def)

lemma remote_409_simps:
  "respond remote_409 tr (MergePull u n h m)
     = Inl (Failure (Some ''Head branch was modified'') (Some 409))"
  "respond remote_409 tr (GetContents u p) = Inr (ContentsResponse (Some entry_metadata))"
  "elapsed remote_409 tr rq = 10"
  by (simp_all add: remote_409_def)

text \<open>
  Claim C3, as stated, at a concrete publish. On the standard variant a merge refused
  with status 405 is followed by the fallback, whose last call updates \<open>heads/master\<close>
  with \<open>force = false\<close>; no forced update of the default branch is made.
  \<open>forceMergePR\<close> passes no options to \<open>patchBranch\<close>, and \<open>patchBranch\<close> refuses a
  forced update of a branch outside the workflow prefix.
\<close>

theorem mergePR_405_plain_update:
  "trace (snd (mergePR remote_405 standard_api
                 (Some \<lparr>pr_number = 7, pr_head = HeadString ''head7''\<rparr>)
                 (md_objects entry_metadata) initial_state))
     = [MergePull ''/repos/owner/repo'' 7 (HeadString ''head7'') ''merge'',
        GetBranch ''/repos/owner/repo'' ''master'',
        CreateTree ''/repos/owner/repo'' (Some ''tip0'')
          [\<lparr>te_path = ''static/img/cat.png'', te_mode = ''100644'', te_type = ''blob'',
             te_sha = Some ''f1''\<rparr>,
           \<lparr>te_path = ''content/posts/hello.md'', te_mode = ''100644'', te_type = ''blob'',
             te_sha = Some ''e1''\<rparr>],
        CreateCommit ''/repos/owner/repo''
          (forceMerge_message (obj_files (md_objects entry_metadata)
                                 @ [obj_entry (md_objects entry_metadata)]))
          ''tree1'' [''tip0''] None None,
        PatchRef ''/repos/owner/repo'' ''heads'' ''master'' ''commit1'' False]
   \<and> PatchRef ''/repos/owner/repo'' ''heads'' ''master'' ''commit1'' True
       \<notin> set (trace (snd (mergePR remote_405 standard_api
                 (Some \<lparr>pr_number = 7, pr_head = HeadString ''head7''\<rparr>)
                 (md_objects entry_metadata) initial_state)))"
  by (simp add: mergePR_def forceMergePR_def getDefaultBranch_def updateTree_def createTree_def
        commit_def createCommit_def patchBranch_def patchRef_def request_def await_def catch_def
        resolve_def reject_def response_default_branch_def response_tree_def response_commit_def
        is_APIError_def error_status_def truthy_def truthy_str_def Let_def
        remote_405_simps standard_api_simps initial_state_def entry_metadata_def
        file_of_media_def tree_entry_def trimStart_def)

text \<open>
  Claim C3, amended. When the merge of the pull request fails with status 405,
  \<open>mergePR\<close> continues as \<open>forceMergePR\<close> from the state after the refused call, so the
  405 is neither rethrown nor dropped. When its calls succeed, \<open>forceMergePR\<close> makes
  exactly four: it reads the tip of the default branch, creates a tree on the tip from
  the media files and the entry file, creates a commit on that tree with the tip as
  parent, and updates the ref of the default branch to that commit with a plain update
  (\<open>force = false\<close>). A merge failure with any other status is rethrown unchanged.
  Whenever \<open>mergePR\<close> resolves, by the merge or by the fallback,
  \<open>publishUnpublishedEntry\<close> goes on to delete the branch and then the metadata of
  the entry and returns the metadata.
\<close>

theorem mergePR_fallback:
  fixes R :: remote and a :: API and p :: PR and objects :: MetaDataObjects and s1 :: state
  defines "merge \<equiv> MergePull (originRepoURL a) (pr_number p) (pr_head p) (mergeMethod a)"
  defines "s2 \<equiv> s1\<lparr>trace := trace s1 @ [merge],
                     clock := clock s1 + elapsed R (trace s1) merge\<rparr>"
  defines "files \<equiv> obj_files objects @ [obj_entry objects]"
  defines "tip_rq \<equiv> GetBranch (originRepoURL a) (branch a)"
  defines "tree_rq \<equiv> (\<lambda>tip. CreateTree (repoURL a) (Some tip)
                          (map tree_entry (map file_of_media files)))"
  defines "commit_rq \<equiv> (\<lambda>tip treeSha. CreateCommit (repoURL a) (forceMerge_message files) treeSha
                          (if tip = [] then [] else [tip]) None None)"
  shows
   "(respond R (trace s1) merge = Inl (Failure msg (Some 405)) \<longrightarrow>
       mergePR R a (Some p) objects s1 = forceMergePR R a objects s2)
    \<and> (respond R (trace s') tip_rq = Inr (BranchResponse tip) \<longrightarrow>
       respond R (trace s' @ [tip_rq]) (tree_rq tip) = Inr (ShaResponse treeSha) \<longrightarrow>
       respond R (trace s' @ [tip_rq, tree_rq tip]) (commit_rq tip treeSha)
         = Inr (CommitResponse c) \<longrightarrow>
       trace (snd (forceMergePR R a objects s'))
         = trace s' @ [tip_rq, tree_rq tip, commit_rq tip treeSha,
                       PatchRef (repoURL a) ''heads'' (branch a) (commit_sha c) False])
    \<and> (respond R (trace s1) merge = Inl (Failure msg st) \<longrightarrow> st \<noteq> Some 405 \<longrightarrow>
       mergePR R a (Some p) objects s1 = (Rejected (APIError msg st), s2))
    \<and> (retrieveMetadata R a (generateContentKey a collectionName slug) s = (Resolved md, s0) \<longrightarrow>
       mergePR R a (md_pr md) (md_objects md) s0 = (Resolved r, s3) \<longrightarrow>
       publishUnpublishedEntry R a collectionName slug s
         = await (deleteBranch R a (generateBranchName (generateContentKey a collectionName slug)))
             (\<lambda>_. await (deleteMetadata R a (generateContentKey a collectionName slug))
             (\<lambda>_. resolve md)) s3)"
proof (intro conjI impI)
  assume "respond R (trace s1) merge = Inl (Failure msg (Some 405))"
  then show "mergePR R a (Some p) objects s1 = forceMergePR R a objects s2"
    by (simp add: mergePR_def catch_def request_def merge_def s2_def is_APIError_def
          error_status_def Let_def)
next
  assume "respond R (trace s') tip_rq = Inr (BranchResponse tip)"
    and "respond R (trace s' @ [tip_rq]) (tree_rq tip) = Inr (ShaResponse treeSha)"
    and "respond R (trace s' @ [tip_rq, tree_rq tip]) (commit_rq tip treeSha)
           = Inr (CommitResponse c)"
  then show "trace (snd (forceMergePR R a objects s'))
         = trace s' @ [tip_rq, tree_rq tip, commit_rq tip treeSha,
                       PatchRef (repoURL a) ''heads'' (branch a) (commit_sha c) False]"
    by (cases "tip = []")
       (simp_all add: forceMergePR_def getDefaultBranch_def updateTree_def createTree_def
          commit_def createCommit_def patchBranch_def patchRef_def request_def await_def
          resolve_def reject_def response_default_branch_def response_tree_def
          response_commit_def truthy_def truthy_str_def Let_def
          tip_rq_def tree_rq_def commit_rq_def files_def
          split: sum.splits failure.splits)
next
  assume "respond R (trace s1) merge = Inl (Failure msg st)" and "st \<noteq> Some 405"
  then show "mergePR R a (Some p) objects s1 = (Rejected (APIError msg st), s2)"
    by (simp add: mergePR_def catch_def request_def merge_def s2_def is_APIError_def
          error_status_def reject_def Let_def)
next
  assume "retrieveMetadata R a (generateContentKey a collectionName slug) s = (Resolved md, s0)"
    and "mergePR R a (md_pr md) (md_objects md) s0 = (Resolved r, s3)"
  then show "publishUnpublishedEntry R a collectionName slug s
         = await (deleteBranch R a (generateBranchName (generateContentKey a collectionName slug)))
             (\<lambda>_. await (deleteMetadata R a (generateContentKey a collectionName slug))
             (\<lambda>_. resolve md)) s3"
    by (simp add: publishUnpublishedEntry_def await_def Let_def)
qed


lemmas run_simps =
  mergePR_def forceMergePR_def getDefaultBranch_def updateTree_def createTree_def
  commit_def createCommit_def patchBranch_def patchRef_def request_def await_def catch_def
  resolve_def reject_def response_default_branch_def response_tree_def response_commit_def
  response_object_def response_sha_def JSON_parse_def
  is_APIError_def error_status_def truthy_def truthy_str_def Let_def
  file_of_media_def tree_entry_def trimStart_def
  retrieveMetadata_def retrieveMetadata_remote_def deleteBranch_def deleteRef_def
  deleteMetadata_def take_def leave_def the_semaphore_def deleteMetadata_callback_def
  checkMetadataRef_def uploadBlob_def createRef_def

theorem mergePR_fallback_witness:
  "respond remote_405 (trace initial_state)
       (MergePull ''/repos/owner/repo'' 7 (HeadString ''head7'') ''merge'')
     = Inl (Failure (Some ''Pull Request is not mergeable'') (Some 405))
   \<and> mergePR remote_405 standard_api (Some \<lparr>pr_number = 7, pr_head = HeadString ''head7''\<rparr>)
         (md_objects entry_metadata) initial_state
       = forceMergePR remote_405 standard_api (md_objects entry_metadata)
           (initial_state\<lparr>trace := [MergePull ''/repos/owner/repo'' 7 (HeadString ''head7'')
                                        ''merge''],
                           clock := 10\<rparr>)
   \<and> trace (snd (forceMergePR remote_405 standard_api (md_objects entry_metadata) initial_state))
       = [GetBranch ''/repos/owner/repo'' ''master'',
          CreateTree ''/repos/owner/repo'' (Some ''tip0'')
            [\<lparr>te_path = ''static/img/cat.png'', te_mode = ''100644'', te_type = ''blob'',
               te_sha = Some ''f1''\<rparr>,
             \<lparr>te_path = ''content/posts/hello.md'', te_mode = ''100644'', te_type = ''blob'',
               te_sha = Some ''e1''\<rparr>],
          CreateCommit ''/repos/owner/repo''
            (forceMerge_message (obj_files (md_objects entry_metadata)
                                   @ [obj_entry (md_objects entry_metadata)]))
            ''tree1'' [''tip0''] None None,
          PatchRef ''/repos/owner/repo'' ''heads'' ''master'' ''commit1'' False]
   \<and> mergePR remote_409 standard_api (Some \<lparr>pr_number = 7, pr_head = HeadString ''head7''\<rparr>)
         (md_objects entry_metadata) initial_state
       = (Rejected (APIError (Some ''Head branch was modified'') (Some 409)),
          initial_state\<lparr>trace := [MergePull ''/repos/owner/repo'' 7 (HeadString ''head7'')
                                       ''merge''],
                          clock := 10\<rparr>)
   \<and> fst (publishUnpublishedEntry remote_405 standard_api ''posts'' ''hello'' initial_state)
       = Resolved entry_metadata
   \<and> drop 6 (trace (snd (publishUnpublishedEntry remote_405 standard_api ''posts'' ''hello''
                            initial_state)))
       = [DeleteRef ''/repos/owner/repo'' ''heads'' (generateBranchName ''owner/repo/posts/hello''),
          GetRef ''/repos/owner/repo'' ''meta'' ''_netlify_cms'',
          CreateTree ''/repos/owner/repo'' (Some ''meta0'')
            [\<lparr>te_path = ''owner/repo/posts/hello.json'', te_mode = ''100644'',
               te_type = ''blob'', te_sha = None\<rparr>],
          CreateCommit ''/repos/owner/repo''
            (''Deleting '' @ ldquo @ ''owner/repo/posts/hello'' @ rdquo @ '' metadata'')
            ''tree1'' [''meta0''] None None,
          PatchRef ''/repos/owner/repo'' ''meta'' ''_netlify_cms'' ''commit1'' False]"
proof -
  let ?p = "\<lparr>pr_number = 7, pr_head = HeadString ''head7''\<rparr>"
  let ?objs = "md_objects entry_metadata"
  let ?K = "generateContentKey standard_api ''posts'' ''hello''"
  let ?s0 = "initial_state\<lparr>trace := [GetContents ''/repos/owner/repo''
                                         ''owner/repo/posts/hello.json''], clock := 10\<rparr>"
  have K: "?K = ''owner/repo/posts/hello''"
    by (simp add: generateContentKey_any_variant standard_api_simps)
  have m405: "respond remote_405 (trace initial_state)
       (MergePull (originRepoURL standard_api) (pr_number ?p) (pr_head ?p)
          (mergeMethod standard_api))
     = Inl (Failure (Some ''Pull Request is not mergeable'') (Some 405))"
    by (simp add: remote_405_simps)
  have m409: "respond remote_409 (trace initial_state)
       (MergePull (originRepoURL standard_api) (pr_number ?p) (pr_head ?p)
          (mergeMethod standard_api))
     = Inl (Failure (Some ''Head branch was modified'') (Some 409))"
    by (simp add: remote_409_simps)
  have tip: "respond remote_405 (trace initial_state)
               (GetBranch (originRepoURL standard_api) (branch standard_api))
             = Inr (BranchResponse ''tip0'')"
    by (simp add: remote_405_simps)
  have tree: "respond remote_405 tr (CreateTree (repoURL standard_api) (Some ''tip0'') es)
             = Inr (ShaResponse ''tree1'')" for tr es
    by (simp add: remote_405_simps)
  have cmt: "respond remote_405 tr
               (CreateCommit (repoURL standard_api) msg ''tree1''
                  (if ''tip0'' = [] then [] else [''tip0'']) None None)
             = Inr (CommitResponse \<lparr> commit_sha = ''commit1'', commit_parents = [''tip0''],
                      commit_message = msg, commit_author = someone,
                      commit_committer = someone \<rparr>)" for tr msg
    by (simp add: remote_405_simps)
  have retrieve: "retrieveMetadata remote_405 standard_api ?K initial_state
                    = (Resolved entry_metadata, ?s0)"
    by (simp add: K run_simps remote_405_simps standard_api_simps initial_state_def)
  have merged: "mergePR remote_405 standard_api (md_pr entry_metadata) ?objs ?s0
                  = (Resolved (ok_response (PatchRef ''/repos/owner/repo'' ''heads'' ''master''
                                              ''commit1'' False)),
                     snd (mergePR remote_405 standard_api (md_pr entry_metadata) ?objs ?s0))"
    by (simp add: run_simps remote_405_simps standard_api_simps initial_state_def
          entry_metadata_def assertCmsBranch_def)
  note a = mergePR_fallback [where R = remote_405 and a = standard_api and p = ?p
      and objects = ?objs and ?s1.0 = initial_state and s' = initial_state and tip = "''tip0''"
      and treeSha = "''tree1''" and s = initial_state and ?s0.0 = ?s0 and md = entry_metadata
      and collectionName = "''posts''" and slug = "''hello''"
      and msg = "Some ''Pull Request is not mergeable''", OF]
  note b = mergePR_fallback [where R = remote_409 and a = standard_api and p = ?p
      and objects = ?objs and ?s1.0 = initial_state
      and msg = "Some ''Head branch was modified''" and st = "Some 409"]
  from a m405 have 1: "mergePR remote_405 standard_api (Some ?p) ?objs initial_state
       = forceMergePR remote_405 standard_api ?objs
           (initial_state\<lparr>trace := [MergePull ''/repos/owner/repo'' 7 (HeadString ''head7'')
                                        ''merge''],
                           clock := 10\<rparr>)"
    by (simp add: standard_api_simps remote_405_simps initial_state_def)
  from a tip tree cmt
  have 2: "trace (snd (forceMergePR remote_405 standard_api ?objs initial_state))
       = [GetBranch ''/repos/owner/repo'' ''master'',
          CreateTree ''/repos/owner/repo'' (Some ''tip0'')
            [\<lparr>te_path = ''static/img/cat.png'', te_mode = ''100644'', te_type = ''blob'',
               te_sha = Some ''f1''\<rparr>,
             \<lparr>te_path = ''content/posts/hello.md'', te_mode = ''100644'', te_type = ''blob'',
               te_sha = Some ''e1''\<rparr>],
          CreateCommit ''/repos/owner/repo''
            (forceMerge_message (obj_files ?objs @ [obj_entry ?objs]))
            ''tree1'' [''tip0''] None None,
          PatchRef ''/repos/owner/repo'' ''heads'' ''master'' ''commit1'' False]"
    by (simp add: standard_api_simps initial_state_def entry_metadata_def file_of_media_def
          tree_entry_def trimStart_def)
  from b m409 have 3: "mergePR remote_409 standard_api (Some ?p) ?objs initial_state
       = (Rejected (APIError (Some ''Head branch was modified'') (Some 409)),
          initial_state\<lparr>trace := [MergePull ''/repos/owner/repo'' 7 (HeadString ''head7'')
                                       ''merge''],
                          clock := 10\<rparr>)"
    by (simp add: standard_api_simps remote_409_simps initial_state_def)
  from a retrieve merged
  have 4: "publishUnpublishedEntry remote_405 standard_api ''posts'' ''hello'' initial_state
         = await (deleteBranch remote_405 standard_api (generateBranchName ?K))
             (\<lambda>_. await (deleteMetadata remote_405 standard_api ?K)
             (\<lambda>_. resolve entry_metadata))
             (snd (mergePR remote_405 standard_api (md_pr entry_metadata) ?objs ?s0))"
    by simp
  have 5: "fst (publishUnpublishedEntry remote_405 standard_api ''posts'' ''hello'' initial_state)
       = Resolved entry_metadata"
    unfolding 4 K
    by (simp add: run_simps remote_405_def standard_api_simps initial_state_def
          entry_metadata_def assertCmsBranch_def)
  have 6: "drop 6 (trace (snd (publishUnpublishedEntry remote_405 standard_api ''posts'' ''hello''
                            initial_state)))
       = [DeleteRef ''/repos/owner/repo'' ''heads'' (generateBranchName ''owner/repo/posts/hello''),
          GetRef ''/repos/owner/repo'' ''meta'' ''_netlify_cms'',
          CreateTree ''/repos/owner/repo'' (Some ''meta0'')
            [\<lparr>te_path = ''owner/repo/posts/hello.json'', te_mode = ''100644'',
               te_type = ''blob'', te_sha = None\<rparr>],
          CreateCommit ''/repos/owner/repo''
            (''Deleting '' @ ldquo @ ''owner/repo/posts/hello'' @ rdquo @ '' metadata'')
            ''tree1'' [''meta0''] None None,
          PatchRef ''/repos/owner/repo'' ''meta'' ''_netlify_cms'' ''commit1'' False]"
    unfolding 4 K
    by (simp add: run_simps remote_405_def standard_api_simps initial_state_def
          entry_metadata_def assertCmsBranch_def)
  from m405 1 2 3 5 6 show ?thesis by (simp add: standard_api_simps)
qed

subsection \<open>Metadata store\<close>

named_theorems plain_intros

lemma await_assoc: "await (await m f) g = await m (\<lambda>x. await (f x) g)"
  by (rule ext) (simp add: await_def split: prod.splits outcome.splits)

lemma plain_resolve [plain_intros]: "plain (resolve x)"
  by (simp add: plain_def resolve_def)

lemma plain_reject [plain_intros]: "plain (reject e)"
  by (simp add: plain_def reject_def)

lemma plain_await [plain_intros]:
  assumes "plain m" and "\<And>x. plain (f x)"
  shows "plain (await m f)"
  unfolding plain_def
proof
  fix s
  obtain r t where mt: "m s = (r, t)" by (cases "m s")
  from assms(1) mt have r: "r \<noteq> Pending" and t: "metadataSemaphore t = metadataSemaphore s"
    unfolding plain_def by (metis fst_conv, metis snd_conv)
  show "fst (await m f s) \<noteq> Pending
          \<and> metadataSemaphore (snd (await m f s)) = metadataSemaphore s"
  proof (cases r)
    case (Resolved x)
    with assms(2) [of x] mt t show ?thesis by (simp add: await_def plain_def)
  next
    case (Rejected e)
    with mt t show ?thesis by (simp add: await_def)
  next
    case Pending
    with r show ?thesis by simp
  qed
qed

lemma plain_catch [plain_intros]:
  assumes "plain m" and "\<And>e. plain (h e)"
  shows "plain (catch m h)"
  unfolding plain_def
proof
  fix s
  obtain r t where mt: "m s = (r, t)" by (cases "m s")
  from assms(1) mt have r: "r \<noteq> Pending" and t: "metadataSemaphore t = metadataSemaphore s"
    unfolding plain_def by (metis fst_conv, metis snd_conv)
  show "fst (catch m h s) \<noteq> Pending
          \<and> metadataSemaphore (snd (catch m h s)) = metadataSemaphore s"
  proof (cases r)
    case (Resolved x)
    with mt t show ?thesis by (simp add: catch_def)
  next
    case (Rejected e)
    with assms(2) [of e] mt t show ?thesis by (simp add: catch_def plain_def)
  next
    case Pending
    with r show ?thesis by simp
  qed
qed

lemma plain_request [plain_intros]: "plain (request R rq)"
  by (simp add: plain_def request_def Let_def split: sum.splits failure.splits)

lemma plain_responses [plain_intros]:
  "plain (response_object r)" "plain (response_sha r)" "plain (response_tree r)"
  "plain (response_commit r)" "plain (JSON_parse r)"
  by (simp_all add: response_object_def response_sha_def response_tree_def response_commit_def
        JSON_parse_def plain_resolve plain_reject split: response.splits option.splits)

lemma plain_setItem [plain_intros]: "plain (\<lambda>s. setItem k (v s) s)"
  by (simp add: plain_def setItem_def)

lemma plain_patchRef [plain_intros]: "plain (patchRef R a ty n sha f)"
  by (simp add: patchRef_def plain_request)

lemma plain_createRef [plain_intros]: "plain (createRef R a ty n sha)"
  by (simp add: createRef_def plain_request)

lemma plain_uploadBlob [plain_intros]: "plain (uploadBlob R a c)"
  unfolding uploadBlob_def by (intro plain_intros)

lemma plain_updateTree [plain_intros]: "plain (updateTree R a b fs)"
  unfolding updateTree_def createTree_def Let_def by (intro plain_intros)

lemma plain_commit [plain_intros]: "plain (commit R a msg t)"
  unfolding commit_def createCommit_def Let_def by (intro plain_intros)

lemma plain_checkMetadataRef [plain_intros]: "plain (checkMetadataRef R a)"
  unfolding checkMetadataRef_def by (intro plain_intros)

lemma plain_deleteMetadata_steps: "plain (deleteMetadata_steps R a key)"
  unfolding deleteMetadata_steps_def by (intro plain_intros)

lemma plain_storeMetadata_calls: "plain (storeMetadata_calls R a key d)"
  unfolding storeMetadata_calls_def by (intro plain_intros)

lemma hand_over_resolves: "fst (hand_over R a q s) = Resolved ()"
  by (cases q) simp_all

lemma leave_resolves: "fst (leave R a s) = Resolved ()"
  by (simp add: leave_def hand_over_resolves)

lemma deleteMetadata_callback_run:
  assumes lv: "\<And>t. fst (lv t) = Resolved ()"
  shows "deleteMetadata_callback R a key lv s
           = (Resolved (), snd (lv (snd (deleteMetadata_steps R a key s))))"
proof -
  have body: "deleteMetadata_callback R a key lv
                = catch (await (deleteMetadata_steps R a key) (\<lambda>_. await lv (\<lambda>_. resolve ())))
                        (\<lambda>err. await lv (\<lambda>_. resolve ()))"
    by (simp add: deleteMetadata_callback_def deleteMetadata_steps_def await_assoc)
  have after: "await lv (\<lambda>_. resolve ()) t = (Resolved (), snd (lv t))" for t
    using lv [of t] by (cases "lv t") (simp add: await_def resolve_def)
  obtain r t where st: "deleteMetadata_steps R a key s = (r, t)"
    by (cases "deleteMetadata_steps R a key s")
  from plain_deleteMetadata_steps [of R a key] st have "r \<noteq> Pending"
    unfolding plain_def by (metis fst_conv)
  then show ?thesis
    unfolding body using st after by (cases r) (simp_all add: catch_def await_def)
qed

lemma storeMetadata_callback_run:
  assumes lv: "\<And>t. fst (lv t) = Resolved ()"
  shows "storeMetadata_callback R a key d lv s
           = (case storeMetadata_calls R a key d s of
                (Resolved r, t) \<Rightarrow>
                  (Resolved (),
                   snd (lv (t\<lparr>localForage := (localForage t)(''gh.meta.'' @ key \<mapsto>
                                \<lparr>expires = clock t + 300000, data = d\<rparr>)\<rparr>)))
              | (Rejected e, t) \<Rightarrow> (Rejected e, t)
              | (Pending, t) \<Rightarrow> (Pending, t))"
proof -
  have body: "storeMetadata_callback R a key d lv
                = catch (await (storeMetadata_calls R a key d) (\<lambda>_.
                         await (\<lambda>s. setItem (''gh.meta.'' @ key)
                                       \<lparr>expires = clock s + 300000, data = d\<rparr> s) (\<lambda>_.
                         await lv (\<lambda>_. resolve ()))))
                        (\<lambda>err. reject err)"
    by (simp add: storeMetadata_callback_def storeMetadata_calls_def await_assoc)
  have after: "await lv (\<lambda>_. resolve ()) t = (Resolved (), snd (lv t))" for t
    using lv [of t] by (cases "lv t") (simp add: await_def resolve_def)
  obtain r t where st: "storeMetadata_calls R a key d s = (r, t)"
    by (cases "storeMetadata_calls R a key d s")
  show ?thesis
    unfolding body using st after
    by (cases r) (simp_all add: catch_def await_def setItem_def reject_def)
qed

lemma deleteMetadata_held:
  "held (the_semaphore s) \<Longrightarrow>
   deleteMetadata R a key s
     = (Pending, s\<lparr>metadataSemaphore :=
                     Some ((the_semaphore s)\<lparr>waiting := waiting (the_semaphore s) @ [DeleteTask key]\<rparr>)\<rparr>)"
  by (simp add: deleteMetadata_def take_def the_semaphore_def Let_def)

lemma storeMetadata_held:
  "held (the_semaphore s) \<Longrightarrow>
   storeMetadata R a key d s
     = (Pending, s\<lparr>metadataSemaphore :=
                     Some ((the_semaphore s)\<lparr>waiting := waiting (the_semaphore s) @ [StoreTask key d]\<rparr>)\<rparr>)"
  by (simp add: storeMetadata_def take_def the_semaphore_def Let_def)

lemma deleteMetadata_idle:
  assumes "idle s"
  shows "deleteMetadata R a key s
           = (Resolved (),
              (snd (deleteMetadata_steps R a key
                      (s\<lparr>metadataSemaphore := Some \<lparr>held = True, waiting = []\<rparr>\<rparr>)))
                \<lparr>metadataSemaphore := Some \<lparr>held = False, waiting = []\<rparr>\<rparr>)"
proof -
  let ?s1 = "s\<lparr>metadataSemaphore := Some \<lparr>held = True, waiting = []\<rparr>\<rparr>"
  let ?t = "snd (deleteMetadata_steps R a key ?s1)"
  from assms have sem: "the_semaphore s = \<lparr>held = False, waiting = []\<rparr>"
    by (simp add: idle_def)
  have "metadataSemaphore ?t = metadataSemaphore ?s1"
    using plain_deleteMetadata_steps [of R a key] unfolding plain_def by blast
  then have lv: "leave R a ?t = (Resolved (), ?t\<lparr>metadataSemaphore := Some \<lparr>held = False, waiting = []\<rparr>\<rparr>)"
    by (simp add: leave_def the_semaphore_def)
  have "deleteMetadata R a key s = deleteMetadata_callback R a key (leave R a) ?s1"
    using sem by (simp add: deleteMetadata_def take_def the_semaphore_def Let_def)
  also have "\<dots> = (Resolved (), snd (leave R a ?t))"
    by (rule deleteMetadata_callback_run) (rule leave_resolves)
  finally show ?thesis using lv by simp
qed

lemma storeMetadata_idle:
  assumes "idle s"
  shows "storeMetadata R a key d s
           = (case storeMetadata_calls R a key d
                     (s\<lparr>metadataSemaphore := Some \<lparr>held = True, waiting = []\<rparr>\<rparr>) of
                (Resolved r, t) \<Rightarrow>
                  (Resolved (),
                   t\<lparr>localForage := (localForage t)(''gh.meta.'' @ key \<mapsto>
                                \<lparr>expires = clock t + 300000, data = d\<rparr>),
                     metadataSemaphore := Some \<lparr>held = False, waiting = []\<rparr>\<rparr>)
              | (Rejected e, t) \<Rightarrow> (Rejected e, t)
              | (Pending, t) \<Rightarrow> (Pending, t))"
proof -
  let ?s1 = "s\<lparr>metadataSemaphore := Some \<lparr>held = True, waiting = []\<rparr>\<rparr>"
  obtain r t where st: "storeMetadata_calls R a key d ?s1 = (r, t)"
    by (cases "storeMetadata_calls R a key d ?s1")
  from assms have sem: "the_semaphore s = \<lparr>held = False, waiting = []\<rparr>"
    by (simp add: idle_def)
  have "metadataSemaphore (snd (storeMetadata_calls R a key d ?s1)) = metadataSemaphore ?s1"
    using plain_storeMetadata_calls [of R a key d] unfolding plain_def by blast
  with st have t: "metadataSemaphore t = Some \<lparr>held = True, waiting = []\<rparr>" by simp
  have "storeMetadata R a key d s = storeMetadata_callback R a key d (leave R a) ?s1"
    using sem by (simp add: storeMetadata_def take_def the_semaphore_def Let_def)
  also have "\<dots> = (case storeMetadata_calls R a key d ?s1 of
                (Resolved r, t) \<Rightarrow>
                  (Resolved (),
                   snd (leave R a (t\<lparr>localForage := (localForage t)(''gh.meta.'' @ key \<mapsto>
                                \<lparr>expires = clock t + 300000, data = d\<rparr>)\<rparr>)))
              | (Rejected e, t) \<Rightarrow> (Rejected e, t)
              | (Pending, t) \<Rightarrow> (Pending, t))"
    by (rule storeMetadata_callback_run) (rule leave_resolves)
  finally show ?thesis
    using st t by (cases r) (simp_all add: leave_def the_semaphore_def)
qed

lemma storeMetadata_failure_keeps_slot:
  assumes "idle s" and "fst (storeMetadata R a key d s) = Rejected e"
  shows "held (the_semaphore (snd (storeMetadata R a key d s)))"
proof -
  let ?s1 = "s\<lparr>metadataSemaphore := Some \<lparr>held = True, waiting = []\<rparr>\<rparr>"
  obtain r t where st: "storeMetadata_calls R a key d ?s1 = (r, t)"
    by (cases "storeMetadata_calls R a key d ?s1")
  have "metadataSemaphore (snd (storeMetadata_calls R a key d ?s1)) = metadataSemaphore ?s1"
    using plain_storeMetadata_calls [of R a key d] unfolding plain_def by blast
  with st have t: "metadataSemaphore t = Some \<lparr>held = True, waiting = []\<rparr>" by simp
  from assms(2) st t show ?thesis
    unfolding storeMetadata_idle [OF assms(1)]
    by (cases r) (simp_all add: the_semaphore_def)
qed

text \<open>
  Claim C8. \<open>deleteMetadata\<close> never rejects, whatever the remote answers. When no write
  holds the slot or waits for it, the callback runs, every failure of its calls is
  absorbed, the promise resolves and the slot is free again; so a second
  \<open>deleteMetadata\<close> of the same key resolves as well.
\<close>

theorem deleteMetadata_never_rejects:
  "fst (deleteMetadata R a key s) \<noteq> Rejected e
   \<and> (idle s \<longrightarrow>
        fst (deleteMetadata R a key s) = Resolved ()
        \<and> idle (snd (deleteMetadata R a key s))
        \<and> fst (deleteMetadata R a key (snd (deleteMetadata R a key s))) = Resolved ()
        \<and> idle (snd (deleteMetadata R a key (snd (deleteMetadata R a key s)))))"
proof
  show "fst (deleteMetadata R a key s) \<noteq> Rejected e"
  proof (cases "held (the_semaphore s)")
    case True
    then show ?thesis by (simp add: deleteMetadata_held)
  next
    case False
    then show ?thesis
      by (simp add: deleteMetadata_def take_def Let_def the_semaphore_def
            deleteMetadata_callback_run [OF leave_resolves])
  qed
next
  show "idle s \<longrightarrow>
        fst (deleteMetadata R a key s) = Resolved ()
        \<and> idle (snd (deleteMetadata R a key s))
        \<and> fst (deleteMetadata R a key (snd (deleteMetadata R a key s))) = Resolved ()
        \<and> idle (snd (deleteMetadata R a key (snd (deleteMetadata R a key s))))"
  proof
    assume i: "idle s"
    have once: "idle t \<Longrightarrow> fst (deleteMetadata R a key t) = Resolved ()
                  \<and> idle (snd (deleteMetadata R a key t))" for t
      by (simp add: deleteMetadata_idle) (simp add: idle_def the_semaphore_def)
    from once [OF i] once [of "snd (deleteMetadata R a key s)"]
    show "fst (deleteMetadata R a key s) = Resolved ()
        \<and> idle (snd (deleteMetadata R a key s))
        \<and> fst (deleteMetadata R a key (snd (deleteMetadata R a key s))) = Resolved ()
        \<and> idle (snd (deleteMetadata R a key (snd (deleteMetadata R a key s))))"
      by simp
  qed
qed


lemma idle_initial_state: "idle initial_state"
  by (simp add: idle_def the_semaphore_def initial_state_def)

lemma remote_down_simps:
  "respond remote_down tr rq = Inl (Failure (Some ''Server Error'') (Some 500))"
  "elapsed remote_down tr rq = 10"
  by (simp_all add: remote_down_def)

lemma remote_conflict_simps:
  "respond remote_conflict tr (PatchRef u ty n sha f)
     = Inl (Failure (Some ''Update is not a fast forward'') (Some 422))"
  "respond remote_conflict tr (GetRef u ty n) = Inr (ok_response (GetRef u ty n))"
  "respond remote_conflict tr (CreateBlob u c) = Inr (ok_response (CreateBlob u c))"
  "respond remote_conflict tr (CreateTree u b es) = Inr (ok_response (CreateTree u b es))"
  "respond remote_conflict tr (CreateCommit u m tsha ps au co)
     = Inr (ok_response (CreateCommit u m tsha ps au co))"
  "elapsed remote_conflict tr rq = 10"
  by (simp_all add: remote_conflict_def)

lemmas store_simps =
  storeMetadata_calls_def deleteMetadata_steps_def checkMetadataRef_def uploadBlob_def
  updateTree_def createTree_def commit_def createCommit_def patchRef_def createRef_def
  request_def await_def catch_def resolve_def reject_def response_object_def response_sha_def
  response_tree_def response_commit_def truthy_def truthy_str_def tree_entry_def trimStart_def
  Let_def

theorem deleteMetadata_never_rejects_witness:
  "idle initial_state
   \<and> fst (deleteMetadata remote_down standard_api ''posts/hello'' initial_state) = Resolved ()
   \<and> trace (snd (deleteMetadata remote_down standard_api ''posts/hello'' initial_state))
       = [GetRef ''/repos/owner/repo'' ''meta'' ''_netlify_cms'',
          CreateBlob ''/repos/owner/repo'' (RawText readme)]
   \<and> fst (deleteMetadata remote_down standard_api ''posts/hello''
            (snd (deleteMetadata remote_down standard_api ''posts/hello'' initial_state)))
       = Resolved ()"
proof -
  have tr: "trace (snd (deleteMetadata remote_down standard_api ''posts/hello'' initial_state))
       = [GetRef ''/repos/owner/repo'' ''meta'' ''_netlify_cms'',
          CreateBlob ''/repos/owner/repo'' (RawText readme)]"
    by (subst deleteMetadata_idle [OF idle_initial_state])
       (simp add: store_simps remote_down_simps standard_api_simps initial_state_def)
  from deleteMetadata_never_rejects [of remote_down standard_api "''posts/hello''" initial_state]
    idle_initial_state tr
  show ?thesis by simp
qed

text \<open>
  Claim C2. The slot of the write queue should be released when a write completes, on
  failure as on success. A \<open>storeMetadata\<close> whose update of the metadata ref is refused
  (status 422) rejects and leaves the slot held: \<open>leave\<close> is called in the \<open>try\<close> block
  only, where \<open>deleteMetadata\<close> calls it in the \<open>catch\<close> block too. The next
  \<open>deleteMetadata\<close> and the next \<open>storeMetadata\<close> are queued, make no call and never
  settle.
\<close>

theorem storeMetadata_failure_blocks_writes:
  "fst (storeMetadata remote_conflict standard_api ''posts/hello'' entry_metadata initial_state)
     = Rejected (APIError (Some ''Update is not a fast forward'') (Some 422))
   \<and> metadataSemaphore
        (snd (storeMetadata remote_conflict standard_api ''posts/hello'' entry_metadata
                initial_state))
       = Some \<lparr>held = True, waiting = []\<rparr>
   \<and> fst (deleteMetadata remote_conflict standard_api ''posts/hello''
            (snd (storeMetadata remote_conflict standard_api ''posts/hello'' entry_metadata
                    initial_state)))
       = Pending
   \<and> trace (snd (deleteMetadata remote_conflict standard_api ''posts/hello''
                   (snd (storeMetadata remote_conflict standard_api ''posts/hello''
                           entry_metadata initial_state))))
       = trace (snd (storeMetadata remote_conflict standard_api ''posts/hello'' entry_metadata
                       initial_state))
   \<and> fst (storeMetadata remote_ok standard_api ''posts/hello'' entry_metadata
            (snd (storeMetadata remote_conflict standard_api ''posts/hello'' entry_metadata
                    initial_state)))
       = Pending"
proof -
  let ?s1 = "snd (storeMetadata remote_conflict standard_api ''posts/hello'' entry_metadata
                    initial_state)"
  have run: "storeMetadata remote_conflict standard_api ''posts/hello'' entry_metadata
               initial_state
             = (Rejected (APIError (Some ''Update is not a fast forward'') (Some 422)),
                initial_state
                  \<lparr> trace := [GetRef ''/repos/owner/repo'' ''meta'' ''_netlify_cms'',
                              CreateBlob ''/repos/owner/repo'' (MetadataJson entry_metadata),
                              CreateTree ''/repos/owner/repo'' (Some ''meta0'')
                                [\<lparr>te_path = ''posts/hello.json'', te_mode = ''100644'',
                                   te_type = ''blob'', te_sha = Some ''blob1''\<rparr>],
                              CreateCommit ''/repos/owner/repo''
                                (''Updating '' @ ldquo @ ''posts/hello'' @ rdquo @ '' metadata'')
                                ''tree1'' [''meta0''] None None,
                              PatchRef ''/repos/owner/repo'' ''meta'' ''_netlify_cms''
                                ''commit1'' False],
                    clock := 50,
                    metadataSemaphore := Some \<lparr>held = True, waiting = []\<rparr> \<rparr>)"
    by (subst storeMetadata_idle [OF idle_initial_state])
       (simp add: store_simps remote_conflict_simps standard_api_simps initial_state_def)
  have h: "held (the_semaphore ?s1)"
    by (simp add: run the_semaphore_def)
  show ?thesis
    by (simp add: deleteMetadata_held [OF h] storeMetadata_held [OF h]) (simp add: run)
qed




subsection \<open>Reconciliation of open-authoring entries\<close>

lemma map_promises_append:
  "map_promises f (xs @ ys) s
     = (case map_promises f xs s of
          (rs1, s1) \<Rightarrow> (case map_promises f ys s1 of (rs2, s2) \<Rightarrow> (rs1 @ rs2, s2)))"
  by (induction xs arbitrary: s) (simp_all split: prod.splits)

lemma successes_append: "successes (rs1 @ rs2) = successes rs1 @ successes rs2"
  by (induction rs1 rule: successes.induct) simp_all

lemma reconcile_merged:
  assumes fork: "truthy (useOpenAuthoring a)"
    and key: "K = generateContentKey a (md_collection md) slug"
    and meta: "retrieveMetadata R a K s = (Resolved md, s1)"
    and pr: "md_pr md = Some p"
    and pull: "getPullRequest R a (pr_number p) s1 = (Resolved info, s2)"
    and closed: "pull_state info = ''closed''"
    and merged: "truthy_str (pull_merged_at info)"
  shows "getUpdatedOpenAuthoringMetadata R a K None s
           = (Resolved None, snd (deleteUnpublishedEntry R a (md_collection md) slug s2))"
proof -
  have slug: "slugFromContentKey a K (md_collection md) = slug"
    unfolding key using fork by (rule slugFromContentKey_fork)
  show ?thesis
    using meta pr pull closed merged
    by (simp add: getUpdatedOpenAuthoringMetadata_def await_def detach_def resolve_def slug
          Let_def)
qed

lemma delete_entry_calls:
  assumes key: "K = generateContentKey a collection slug"
    and meta: "retrieveMetadata R a K s2 = (Resolved md', s3)"
    and pr: "md_pr md' = Some p'"
    and close: "respond R (trace s3) (PatchPull (originRepoURL a) (pr_number p') ''closed'')
                  = Inr r1"
    and del: "respond R (trace s3 @ [PatchPull (originRepoURL a) (pr_number p') ''closed''])
                (DeleteRef (repoURL a) ''heads'' (generateBranchName K)) = Inr r2"
  shows "deleteUnpublishedEntry R a collection slug s2
           = deleteMetadata R a K
               (s3\<lparr>trace := trace s3 @ [PatchPull (originRepoURL a) (pr_number p') ''closed'',
                                        DeleteRef (repoURL a) ''heads'' (generateBranchName K)],
                   clock := clock s3
                     + elapsed R (trace s3) (PatchPull (originRepoURL a) (pr_number p') ''closed'')
                     + elapsed R (trace s3 @ [PatchPull (originRepoURL a) (pr_number p') ''closed''])
                         (DeleteRef (repoURL a) ''heads'' (generateBranchName K))\<rparr>)"
  using meta pr close del
  by (simp add: deleteUnpublishedEntry_def key [symmetric] await_def closePR_def deleteBranch_def
        deleteRef_def catch_def request_def resolve_def Let_def)


text \<open>
  Claim C7. In the fork variant, take an entry whose content key is the key of its
  collection and slug, whose metadata records a pull request, and whose pull request
  the remote reports closed with a merge date. Then the reconciler reports the entry
  removed (it resolves with \<open>undefined\<close>) after starting \<open>deleteUnpublishedEntry\<close> for
  it. When the calls of that deletion succeed (the metadata is read, the pull request is
  closed, the ref of the branch is deleted) and no metadata write is in flight, the
  deletion removes the branch of the entry and then runs \<open>deleteMetadata\<close> for its key,
  which resolves. In the listing, the promise of the branch is rejected, so the result
  is made of the branches before and after it only.
\<close>

theorem merged_entry_is_removed:
  fixes R :: remote and a :: API and b :: Branch and s3 :: state
  defines "K \<equiv> contentKeyFromRef (branch_ref b)"
  defines "close_rq \<equiv> (\<lambda>p'. PatchPull (originRepoURL a) (pr_number p') ''closed'')"
  defines "del_rq \<equiv> DeleteRef (repoURL a) ''heads'' (generateBranchName K)"
  defines "list_rq \<equiv> ListRefs (repoURL a) ''heads/cms''"
  defines "removed \<equiv> Rejected (Reason ''Unpublished entry was removed'')"
  defines "s5 \<equiv> (\<lambda>p'. s3\<lparr>trace := trace s3 @ [close_rq p', del_rq],
                          clock := clock s3 + elapsed R (trace s3) (close_rq p')
                                     + elapsed R (trace s3 @ [close_rq p']) del_rq\<rparr>)"
  assumes fork: "truthy (useOpenAuthoring a)"
    and key: "K = generateContentKey a (md_collection md) slug"
    and meta: "retrieveMetadata R a K s = (Resolved md, s1)"
    and pr: "md_pr md = Some p"
    and pull: "getPullRequest R a (pr_number p) s1 = (Resolved info, s2)"
    and closed: "pull_state info = ''closed''"
    and merged: "truthy_str (pull_merged_at info)"
  shows
    "getUpdatedOpenAuthoringMetadata R a K None s
       = (Resolved None, snd (deleteUnpublishedEntry R a (md_collection md) slug s2))
     \<and> (retrieveMetadata R a K s2 = (Resolved md', s3) \<longrightarrow> md_pr md' = Some p' \<longrightarrow> idle s3 \<longrightarrow>
          respond R (trace s3) (close_rq p') = Inr r1 \<longrightarrow>
          respond R (trace s3 @ [close_rq p']) del_rq = Inr r2 \<longrightarrow>
          deleteUnpublishedEntry R a (md_collection md) slug s2 = deleteMetadata R a K (s5 p')
          \<and> fst (deleteMetadata R a K (s5 p')) = Resolved ())
     \<and> (respond R (trace s0) list_rq = Inr (RefsResponse (pre @ b # post)) \<longrightarrow>
          map_promises (getUpdatedOpenAuthoringBranch R a) pre
            (s0\<lparr>trace := trace s0 @ [list_rq], clock := clock s0 + elapsed R (trace s0) list_rq\<rparr>)
            = (rs1, s) \<longrightarrow>
          map_promises (getUpdatedOpenAuthoringBranch R a) post
            (snd (deleteUnpublishedEntry R a (md_collection md) slug s2)) = (rs2, sN) \<longrightarrow>
          listUnpublishedBranches R a s0 = onlySuccessfulPromises (rs1 @ removed # rs2) sN
          \<and> successes (rs1 @ removed # rs2) = successes rs1 @ successes rs2)"
proof (intro conjI impI)
  show rec: "getUpdatedOpenAuthoringMetadata R a K None s
       = (Resolved None, snd (deleteUnpublishedEntry R a (md_collection md) slug s2))"
    using fork key meta pr pull closed merged by (rule reconcile_merged)
  {
    assume "retrieveMetadata R a K s2 = (Resolved md', s3)" and "md_pr md' = Some p'"
      and "respond R (trace s3) (close_rq p') = Inr r1"
      and "respond R (trace s3 @ [close_rq p']) del_rq = Inr r2"
    then show "deleteUnpublishedEntry R a (md_collection md) slug s2
                 = deleteMetadata R a K (s5 p')"
      unfolding close_rq_def del_rq_def s5_def
      using delete_entry_calls [OF key, of R s2 md' s3 p' r1 r2] by simp
  }
  {
    assume "idle s3"
    then have "idle (s5 p')" by (simp add: s5_def idle_def the_semaphore_def)
    then show "fst (deleteMetadata R a K (s5 p')) = Resolved ()"
      by (simp add: deleteMetadata_idle)
  }
  {
    assume list: "respond R (trace s0) list_rq = Inr (RefsResponse (pre @ b # post))"
      and before: "map_promises (getUpdatedOpenAuthoringBranch R a) pre
            (s0\<lparr>trace := trace s0 @ [list_rq], clock := clock s0 + elapsed R (trace s0) list_rq\<rparr>)
            = (rs1, s)"
      and after: "map_promises (getUpdatedOpenAuthoringBranch R a) post
            (snd (deleteUnpublishedEntry R a (md_collection md) slug s2)) = (rs2, sN)"
    have this_one: "getUpdatedOpenAuthoringBranch R a b s
                      = (removed, snd (deleteUnpublishedEntry R a (md_collection md) slug s2))"
      using rec
      by (simp add: getUpdatedOpenAuthoringBranch_def K_def [symmetric] await_def reject_def
            removed_def Let_def)
    have all: "map_promises (getUpdatedOpenAuthoringBranch R a) (pre @ b # post)
            (s0\<lparr>trace := trace s0 @ [list_rq], clock := clock s0 + elapsed R (trace s0) list_rq\<rparr>)
            = (rs1 @ removed # rs2, sN)"
      using before after this_one by (simp add: map_promises_append)
    have settled: "fst (onlySuccessfulPromises rs t) \<noteq> Rejected e" for rs :: "Branch outcome list" and t e
      by (simp add: onlySuccessfulPromises_def)
    show "listUnpublishedBranches R a s0 = onlySuccessfulPromises (rs1 @ removed # rs2) sN"
      using list all fork
      by (cases "onlySuccessfulPromises (rs1 @ removed # rs2) sN")
         (auto simp: listUnpublishedBranches_def catch_def await_def request_def
            response_branches_def resolve_def list_rq_def Let_def onlySuccessfulPromises_def
            split: if_splits)
    show "successes (rs1 @ removed # rs2) = successes rs1 @ successes rs2"
      by (simp add: successes_append removed_def)
  }
qed


theorem merged_entry_is_removed_witness:
  "truthy (useOpenAuthoring fork_api)
   \<and> contentKeyFromRef ''refs/heads/cms/me/repo/posts/hello''
       = generateContentKey fork_api ''posts'' ''hello''
   \<and> respond remote_ok [] (ListRefs ''/repos/me/repo'' ''heads/cms'')
       = Inr (RefsResponse [Branch ''refs/heads/cms/me/repo/posts/hello''])
   \<and> fst (listUnpublishedBranches remote_ok fork_api initial_state) = Resolved []
   \<and> trace (snd (listUnpublishedBranches remote_ok fork_api initial_state))
       = [ListRefs ''/repos/me/repo'' ''heads/cms'',
          GetContents ''/repos/me/repo'' ''me/repo/posts/hello.json'',
          GetPull ''/repos/owner/repo'' 7,
          GetContents ''/repos/me/repo'' ''me/repo/posts/hello.json'',
          PatchPull ''/repos/owner/repo'' 7 ''closed'',
          DeleteRef ''/repos/me/repo'' ''heads'' ''cms/me/repo/posts/hello'',
          GetRef ''/repos/me/repo'' ''meta'' ''_netlify_cms'',
          CreateTree ''/repos/me/repo'' (Some ''meta0'')
            [\<lparr>te_path = ''me/repo/posts/hello.json'', te_mode = ''100644'',
               te_type = ''blob'', te_sha = None\<rparr>],
          CreateCommit ''/repos/me/repo''
            (''Deleting '' @ ldquo @ ''me/repo/posts/hello'' @ rdquo @ '' metadata'')
            ''tree1'' [''meta0''] None None,
          PatchRef ''/repos/me/repo'' ''meta'' ''_netlify_cms'' ''commit1'' False]"
proof -
  let ?b = "Branch ''refs/heads/cms/me/repo/posts/hello''"
  let ?K = "contentKeyFromRef (branch_ref ?b)"
  let ?p = "\<lparr>pr_number = 7, pr_head = HeadString ''head7''\<rparr>"
  let ?info = "\<lparr> pull_number = 7, pull_head_sha = ''head7'', pull_state = ''closed'',
                  pull_merged_at = Some ''2020-02-02T00:00:00Z'' \<rparr>"
  let ?list = "ListRefs ''/repos/me/repo'' ''heads/cms''"
  let ?get = "GetContents ''/repos/me/repo'' ''me/repo/posts/hello.json''"
  let ?pull = "GetPull ''/repos/owner/repo'' 7"
  let ?close = "PatchPull ''/repos/owner/repo'' 7 ''closed''"
  let ?del = "DeleteRef ''/repos/me/repo'' ''heads'' ''cms/me/repo/posts/hello''"
  let ?sL = "initial_state\<lparr>trace := [?list], clock := 10\<rparr>"
  let ?s1 = "initial_state\<lparr>trace := [?list, ?get], clock := 20\<rparr>"
  let ?s2 = "initial_state\<lparr>trace := [?list, ?get, ?pull], clock := 30\<rparr>"
  let ?s3 = "initial_state\<lparr>trace := [?list, ?get, ?pull, ?get], clock := 40\<rparr>"
  let ?s5 = "initial_state\<lparr>trace := [?list, ?get, ?pull, ?get, ?close, ?del], clock := 60\<rparr>"
  have K0: "contentKeyFromRef ''refs/heads/cms/me/repo/posts/hello'' = ''me/repo/posts/hello''"
    by (simp add: contentKeyFromRef_def substring_def CMS_BRANCH_PREFIX_def)
  then have K: "?K = ''me/repo/posts/hello''"
    by simp
  have fork: "truthy (useOpenAuthoring fork_api)"
    by (simp add: truthy_def fork_api_simps)
  have key: "?K = generateContentKey fork_api (md_collection entry_metadata) ''hello''"
    by (simp add: K0 generateContentKey_any_variant fork_api_simps entry_metadata_def)
  have split: "split_slash ''me/repo/posts/hello'' = [''me'', ''repo'', ''posts'', ''hello'']"
    by simp
  have retrieve: "retrieveMetadata remote_ok fork_api ''me/repo/posts/hello''
                    (initial_state\<lparr>trace := tr, clock := c\<rparr>)
                  = (Resolved entry_metadata,
                     initial_state\<lparr>trace := tr @ [?get], clock := c + 10\<rparr>)" for tr c
    by (simp add: retrieveMetadata_def retrieveMetadata_remote_def split interpolate_nth_def
          catch_def await_def request_def JSON_parse_def resolve_def Let_def
          remote_ok_simps fork_api_simps truthy_def initial_state_def)
  have meta: "retrieveMetadata remote_ok fork_api ?K ?sL = (Resolved entry_metadata, ?s1)"
    unfolding K using retrieve [where tr = "[?list]" and c = 10] by simp
  have pr: "md_pr entry_metadata = Some ?p"
    by (simp add: entry_metadata_def)
  have pull: "getPullRequest remote_ok fork_api (pr_number ?p) ?s1 = (Resolved ?info, ?s2)"
    by (simp add: getPullRequest_def await_def request_def response_pull_def resolve_def
          Let_def remote_ok_simps fork_api_simps initial_state_def)
  have closed: "pull_state ?info = ''closed''" by simp
  have merged: "truthy_str (pull_merged_at ?info)" by (simp add: truthy_str_def)
  have meta': "retrieveMetadata remote_ok fork_api ?K ?s2 = (Resolved entry_metadata, ?s3)"
    unfolding K using retrieve [where tr = "[?list, ?get, ?pull]" and c = 30] by simp
  have idle3: "idle ?s3"
    by (simp add: idle_def the_semaphore_def initial_state_def)
  have branch: "generateBranchName ''me/repo/posts/hello'' = ''cms/me/repo/posts/hello''"
    by (simp add: generateBranchName_def CMS_BRANCH_PREFIX_def)
  have close: "respond remote_ok (trace ?s3)
                 (PatchPull (originRepoURL fork_api) (pr_number ?p) ''closed'')
               = Inr (ok_response ?close)"
    by (simp add: remote_ok_simps fork_api_simps)
  have del: "respond remote_ok
               (trace ?s3 @ [PatchPull (originRepoURL fork_api) (pr_number ?p) ''closed''])
               (DeleteRef (repoURL fork_api) ''heads'' (generateBranchName ?K))
             = Inr OtherResponse"
    by (simp add: remote_ok_simps)
  have list: "respond remote_ok (trace initial_state) (ListRefs (repoURL fork_api) ''heads/cms'')
                = Inr (RefsResponse ([] @ ?b # []))"
    by (simp add: remote_ok_simps)
  have before: "map_promises (getUpdatedOpenAuthoringBranch remote_ok fork_api) []
                  (initial_state\<lparr>trace := trace initial_state
                                             @ [ListRefs (repoURL fork_api) ''heads/cms''],
                     clock := clock initial_state
                       + elapsed remote_ok (trace initial_state)
                           (ListRefs (repoURL fork_api) ''heads/cms'')\<rparr>)
                = ([], ?sL)"
    by (simp add: remote_ok_simps fork_api_simps initial_state_def)
  have after: "map_promises (getUpdatedOpenAuthoringBranch remote_ok fork_api) []
                 (snd (deleteUnpublishedEntry remote_ok fork_api (md_collection entry_metadata)
                         ''hello'' ?s2))
               = ([], snd (deleteUnpublishedEntry remote_ok fork_api
                             (md_collection entry_metadata) ''hello'' ?s2))"
    by simp
  note inst = merged_entry_is_removed [where R = remote_ok and a = fork_api and b = ?b
      and md = entry_metadata and slug = "''hello''" and s = ?sL and ?s1.0 = ?s1 and p = ?p
      and info = ?info and ?s2.0 = ?s2 and md' = entry_metadata and ?s3.0 = ?s3 and p' = ?p
      and ?r1.0 = "ok_response ?close" and ?r2.0 = OtherResponse and ?s0.0 = initial_state
      and pre = "[]" and post = "[]" and ?rs1.0 = "[]" and ?rs2.0 = "[]"
      and sN = "snd (deleteUnpublishedEntry remote_ok fork_api (md_collection entry_metadata)
                       ''hello'' ?s2)",
      OF fork key meta pr pull closed merged]
  have s5: "?s3\<lparr>trace := trace ?s3
                     @ [PatchPull (originRepoURL fork_api) (pr_number ?p) ''closed'',
                        DeleteRef (repoURL fork_api) ''heads'' (generateBranchName ?K)],
                 clock := clock ?s3
                   + elapsed remote_ok (trace ?s3)
                       (PatchPull (originRepoURL fork_api) (pr_number ?p) ''closed'')
                   + elapsed remote_ok
                       (trace ?s3 @ [PatchPull (originRepoURL fork_api) (pr_number ?p) ''closed''])
                       (DeleteRef (repoURL fork_api) ''heads'' (generateBranchName ?K))\<rparr>
            = ?s5"
    by (simp add: K0 branch remote_ok_simps fork_api_simps initial_state_def)
  from inst meta' pr idle3 close del
  have "deleteUnpublishedEntry remote_ok fork_api (md_collection entry_metadata) ''hello'' ?s2
          = deleteMetadata remote_ok fork_api ?K ?s5"
    unfolding s5 by blast
  then have deleted: "deleteUnpublishedEntry remote_ok fork_api (md_collection entry_metadata)
                        ''hello'' ?s2
          = deleteMetadata remote_ok fork_api ''me/repo/posts/hello'' ?s5"
    unfolding K .
  have idle5: "idle ?s5"
    by (simp add: idle_def the_semaphore_def initial_state_def)
  have run: "trace (snd (deleteMetadata remote_ok fork_api ''me/repo/posts/hello'' ?s5))
       = [?list, ?get, ?pull, ?get, ?close, ?del,
          GetRef ''/repos/me/repo'' ''meta'' ''_netlify_cms'',
          CreateTree ''/repos/me/repo'' (Some ''meta0'')
            [\<lparr>te_path = ''me/repo/posts/hello.json'', te_mode = ''100644'',
               te_type = ''blob'', te_sha = None\<rparr>],
          CreateCommit ''/repos/me/repo''
            (''Deleting '' @ ldquo @ ''me/repo/posts/hello'' @ rdquo @ '' metadata'')
            ''tree1'' [''meta0''] None None,
          PatchRef ''/repos/me/repo'' ''meta'' ''_netlify_cms'' ''commit1'' False]"
    by (subst deleteMetadata_idle [OF idle5])
       (simp add: store_simps remote_ok_simps fork_api_simps initial_state_def)
  from inst list before after
  have "listUnpublishedBranches remote_ok fork_api initial_state
          = onlySuccessfulPromises
              ([] @ Rejected (Reason ''Unpublished entry was removed'') # [])
              (snd (deleteUnpublishedEntry remote_ok fork_api (md_collection entry_metadata)
                      ''hello'' ?s2))"
    by blast
  then have listing: "listUnpublishedBranches remote_ok fork_api initial_state
          = (Resolved [], snd (deleteMetadata remote_ok fork_api ''me/repo/posts/hello'' ?s5))"
    unfolding deleted by (simp add: onlySuccessfulPromises_def)
  have c2: "contentKeyFromRef ''refs/heads/cms/me/repo/posts/hello''
              = generateContentKey fork_api ''posts'' ''hello''"
    by (simp add: K0 generateContentKey_any_variant fork_api_simps)
  have c3: "respond remote_ok [] (ListRefs ''/repos/me/repo'' ''heads/cms'')
              = Inr (RefsResponse [Branch ''refs/heads/cms/me/repo/posts/hello''])"
    by (simp add: remote_ok_simps)
  have c4: "fst (listUnpublishedBranches remote_ok fork_api initial_state) = Resolved []"
    by (simp add: listing)
  have c5: "trace (snd (listUnpublishedBranches remote_ok fork_api initial_state))
       = [?list, ?get, ?pull, ?get, ?close, ?del,
          GetRef ''/repos/me/repo'' ''meta'' ''_netlify_cms'',
          CreateTree ''/repos/me/repo'' (Some ''meta0'')
            [\<lparr>te_path = ''me/repo/posts/hello.json'', te_mode = ''100644'',
               te_type = ''blob'', te_sha = None\<rparr>],
          CreateCommit ''/repos/me/repo''
            (''Deleting '' @ ldquo @ ''me/repo/posts/hello'' @ rdquo @ '' metadata'')
            ''tree1'' [''meta0''] None None,
          PatchRef ''/repos/me/repo'' ''meta'' ''_netlify_cms'' ''commit1'' False]"
    unfolding listing using run by simp
  show ?thesis
    using fork c2 c3 c4 c5 by (intro conjI) assumption+
qed

end
